theory Spec2Isabelle
  imports Complex_Main "HOL-Library.Word"
begin

section \<open>Session lifecycle of the Pimax OpenXR runtime (session.cpp)\<close>

text \<open>
  A shallow embedding of \<^verbatim>\<open>src/pimax-openxr/session.cpp\<close>: the member variables of
  \<^verbatim>\<open>OpenXrRuntime\<close> that the file reads or writes form a record, every entry point is a
  function from the runtime before the call to the outcome and the runtime after it.
  Code that lives outside the file (the vendor SDK, the graphics backends, the space
  and swapchain entry points, the registry, telemetry) is a parameter: the record
  \<open>env\<close> holds what these collaborators answer during one call, and every call made to
  them is appended to the \<open>trace\<close> of the runtime, in program order. The trace also
  records the assignments that session.cpp makes to the session's lifecycle members,
  so that the order of teardown is a property of the model.
  The \<^verbatim>\<open>float\<close> and \<^verbatim>\<open>double\<close> values of the file are the reals they denote, and
  every floating point operation rounds its exact result to the format (IEEE 754, to
  nearest, ties to even).
  \<^verbatim>\<open>TraceLoggingWrite\<close> and \<^verbatim>\<open>Log\<close> only feed a diagnostic sink and are left out.
\<close>

subsection \<open>OpenXR types and constants (openxr.h)\<close>

type_synonym XrResult = int
type_synonym XrStructureType = int
type_synonym XrViewConfigurationType = int
type_synonym pvrResult = int
type_synonym XrInstance = "64 word"
type_synonym XrSystemId = "64 word"
type_synonym XrSession = "64 word"
type_synonym XrSpace = "64 word"
type_synonym XrSwapchain = "64 word"
type_synonym XrActionSet = "64 word"

definition XR_SUCCESS :: XrResult where "XR_SUCCESS = 0"
definition XR_ERROR_VALIDATION_FAILURE :: XrResult where "XR_ERROR_VALIDATION_FAILURE = - 1"
definition XR_ERROR_RUNTIME_FAILURE :: XrResult where "XR_ERROR_RUNTIME_FAILURE = - 2"
definition XR_ERROR_LIMIT_REACHED :: XrResult where "XR_ERROR_LIMIT_REACHED = - 10"
definition XR_ERROR_HANDLE_INVALID :: XrResult where "XR_ERROR_HANDLE_INVALID = - 12"
definition XR_ERROR_SESSION_NOT_RUNNING :: XrResult where "XR_ERROR_SESSION_NOT_RUNNING = - 16"
definition XR_ERROR_SYSTEM_INVALID :: XrResult where "XR_ERROR_SYSTEM_INVALID = - 18"
definition XR_ERROR_SESSION_NOT_READY :: XrResult where "XR_ERROR_SESSION_NOT_READY = - 28"
definition XR_ERROR_SESSION_NOT_STOPPING :: XrResult where "XR_ERROR_SESSION_NOT_STOPPING = - 29"
definition XR_ERROR_GRAPHICS_DEVICE_INVALID :: XrResult where
  "XR_ERROR_GRAPHICS_DEVICE_INVALID = - 38"
definition XR_ERROR_VIEW_CONFIGURATION_TYPE_UNSUPPORTED :: XrResult where
  "XR_ERROR_VIEW_CONFIGURATION_TYPE_UNSUPPORTED = - 41"
definition XR_ERROR_GRAPHICS_REQUIREMENTS_CALL_MISSING :: XrResult where
  "XR_ERROR_GRAPHICS_REQUIREMENTS_CALL_MISSING = - 50"

text \<open>\<^verbatim>\<open>#define XR_FAILED(result) ((result) < 0)\<close>\<close>

definition XR_FAILED :: "XrResult \<Rightarrow> bool" where
  "XR_FAILED result = (result < 0)"

definition XR_TYPE_SESSION_CREATE_INFO :: XrStructureType where
  "XR_TYPE_SESSION_CREATE_INFO = 8"
definition XR_TYPE_SESSION_BEGIN_INFO :: XrStructureType where
  "XR_TYPE_SESSION_BEGIN_INFO = 10"
definition XR_TYPE_GRAPHICS_BINDING_OPENGL_WIN32_KHR :: XrStructureType where
  "XR_TYPE_GRAPHICS_BINDING_OPENGL_WIN32_KHR = 1000023000"
definition XR_TYPE_GRAPHICS_BINDING_VULKAN_KHR :: XrStructureType where
  "XR_TYPE_GRAPHICS_BINDING_VULKAN_KHR = 1000025000"
definition XR_TYPE_GRAPHICS_BINDING_D3D11_KHR :: XrStructureType where
  "XR_TYPE_GRAPHICS_BINDING_D3D11_KHR = 1000027000"
definition XR_TYPE_GRAPHICS_BINDING_D3D12_KHR :: XrStructureType where
  "XR_TYPE_GRAPHICS_BINDING_D3D12_KHR = 1000028000"

definition XR_VIEW_CONFIGURATION_TYPE_PRIMARY_MONO :: XrViewConfigurationType where
  "XR_VIEW_CONFIGURATION_TYPE_PRIMARY_MONO = 1"
definition XR_VIEW_CONFIGURATION_TYPE_PRIMARY_STEREO :: XrViewConfigurationType where
  "XR_VIEW_CONFIGURATION_TYPE_PRIMARY_STEREO = 2"

definition XR_NULL_HANDLE :: "64 word" where "XR_NULL_HANDLE = 0"

definition pvr_success :: pvrResult where "pvr_success = 0"

datatype XrSessionState =
    XR_SESSION_STATE_UNKNOWN
  | XR_SESSION_STATE_IDLE
  | XR_SESSION_STATE_READY
  | XR_SESSION_STATE_SYNCHRONIZED
  | XR_SESSION_STATE_VISIBLE
  | XR_SESSION_STATE_FOCUSED
  | XR_SESSION_STATE_STOPPING
  | XR_SESSION_STATE_LOSS_PENDING
  | XR_SESSION_STATE_EXITING

datatype XrReferenceSpaceType =
    XR_REFERENCE_SPACE_TYPE_VIEW
  | XR_REFERENCE_SPACE_TYPE_LOCAL
  | XR_REFERENCE_SPACE_TYPE_STAGE

datatype ForcedInteractionProfile = OculusTouchController | MicrosoftMotionController

subsection \<open>Floating point\<close>

text \<open>
  \<open>round_ieee p emin\<close> rounds a real to the nearest number with \<open>p\<close> significant bits
  whose exponent is at least \<open>emin\<close> (below it the numbers are subnormal), ties going to
  the even significand. \<open>ilog2\<close> finds the binary exponent by halving or doubling, with
  more fuel than the exponent range of a double needs. Overflow to infinity is not
  represented: every value of this development is far below \<open>2 ^ 1024\<close>.
\<close>

definition pow2 :: "int \<Rightarrow> real" where
  "pow2 e = (if 0 \<le> e then 2 ^ nat e else 1 / 2 ^ nat (- e))"

definition round_half_even :: "real \<Rightarrow> int" where
  "round_half_even x =
     (let f = \<lfloor>x\<rfloor>
      in if x - of_int f < 1 / 2 then f
         else if 1 / 2 < x - of_int f then f + 1
         else if even f then f else f + 1)"

fun ilog2 :: "nat \<Rightarrow> real \<Rightarrow> int" where
  "ilog2 0 x = 0"
| "ilog2 (Suc fuel) x =
     (if 2 \<le> x then ilog2 fuel (x / 2) + 1
      else if x < 1 then ilog2 fuel (x * 2) - 1
      else 0)"

definition round_ieee :: "nat \<Rightarrow> int \<Rightarrow> real \<Rightarrow> real" where
  "round_ieee p emin x =
     (if x = 0 then 0
      else
        (let e = max (ilog2 2200 \<bar>x\<bar>) emin;
             q = e - int p + 1
         in of_int (round_half_even (x / pow2 q)) * pow2 q))"

text \<open>\<^verbatim>\<open>float\<close> is binary32 and \<^verbatim>\<open>double\<close> is binary64.\<close>

definition round_float :: "real \<Rightarrow> real" where
  "round_float = round_ieee 24 (- 126)"

definition round_double :: "real \<Rightarrow> real" where
  "round_double = round_ieee 53 (- 1022)"

text \<open>
  The operations that session.cpp applies: the conversion of an \<^verbatim>\<open>int\<close> to
  \<^verbatim>\<open>float\<close>, the product and quotient of two floats, the product and difference of two
  doubles (a float operand is converted to double without change). The cast to
  \<^verbatim>\<open>uint64_t\<close> drops the fraction; C++ leaves it undefined when the result does not fit
  the type, which is the value \<open>None\<close>.
\<close>

definition float_of_int :: "int \<Rightarrow> real" where
  "float_of_int i = round_float (of_int i)"

definition float_mul :: "real \<Rightarrow> real \<Rightarrow> real" where
  "float_mul a b = round_float (a * b)"

definition float_div :: "real \<Rightarrow> real \<Rightarrow> real" where
  "float_div a b = round_float (a / b)"

definition double_mul :: "real \<Rightarrow> real \<Rightarrow> real" where
  "double_mul a b = round_double (a * b)"

definition double_sub :: "real \<Rightarrow> real \<Rightarrow> real" where
  "double_sub a b = round_double (a - b)"

definition uint64_of_double :: "real \<Rightarrow> nat option" where
  "uint64_of_double x = (if - 1 < x \<and> x < 2 ^ 64 then Some (nat \<lfloor>x\<rfloor>) else None)"

text \<open>
  An entry of the \<^verbatim>\<open>next\<close> chain: the \<^verbatim>\<open>type\<close> tag of its \<^verbatim>\<open>XrBaseInStructure\<close>
  header and the words of the structure behind the header, which the scan hands to a
  backend initializer after the \<^verbatim>\<open>reinterpret_cast\<close>. The chain itself is the list of
  its entries, following \<^verbatim>\<open>next\<close> until the null pointer.
\<close>

record XrBaseInStructure =
  entry_type :: XrStructureType
  entry_body :: "64 word list"

record XrSessionCreateInfo =
  createInfo_type :: XrStructureType
  createInfo_next :: "XrBaseInStructure list"
  createFlags :: "64 word"
  systemId :: XrSystemId

record XrSessionBeginInfo =
  beginInfo_type :: XrStructureType
  primaryViewConfigurationType :: XrViewConfigurationType

subsection \<open>Outcomes, collaborators and the runtime\<close>

text \<open>
  \<^verbatim>\<open>CHECK_XRCMD\<close> and \<^verbatim>\<open>CHECK_PVRCMD\<close> throw when the command they wrap fails; the
  exception carries the failed result. An entry point either returns an \<open>XrResult\<close>
  or leaves by such an exception.
\<close>

datatype exception = XrCommandFailed XrResult | PvrCommandFailed pvrResult

datatype outcome = Return XrResult | Throw exception

datatype event =
    Call_initializeD3D11 "64 word list"
  | Call_initializeD3D12 "64 word list"
  | Call_initializeVulkan "64 word list"
  | Call_initializeOpenGL "64 word list"
  | Call_pvr_recenterTrackingOrigin
  | Call_logScenario string bool int bool
  | Call_logUsage real nat
  | Call_rebindControllerActions nat
  | Call_xrCreateReferenceSpace XrReferenceSpaceType
  | Call_xrDestroySwapchain XrSwapchain
  | Call_xrDestroySpace XrSpace
  | Call_cleanupOpenGL
  | Call_cleanupVulkan
  | Call_cleanupD3D12
  | Call_cleanupD3D11
  | Store_sessionCreated bool
  | Store_sessionState XrSessionState
  | Store_sessionStateDirty bool
  | Store_sessionStateEventTime real
  | Store_sessionExiting bool
  | Store_originSpace XrSpace
  | Store_viewSpace XrSpace

text \<open>
  What the collaborators answer during one call of an entry point. Times are the
  \<^verbatim>\<open>double\<close> seconds of \<^verbatim>\<open>pvr_getTimeSeconds\<close>: session.cpp stores them as they are
  and subtracts two of them, with rounding, for the usage record.
  \<open>xrCreateReferenceSpace\<close> is given the reference space
  type and the present content of the handle it is to fill, and answers with its result and
  the content of the handle afterwards.
\<close>

record env =
  getSetting :: "string \<Rightarrow> int option"
  pvr_getIntConfig :: "string \<Rightarrow> int \<Rightarrow> int"
  pvr_recenterTrackingOrigin :: pvrResult
  pvr_getTimeSeconds :: real
  initializeD3D11 :: "64 word list \<Rightarrow> XrResult"
  initializeD3D12 :: "64 word list \<Rightarrow> XrResult"
  initializeVulkan :: "64 word list \<Rightarrow> XrResult"
  initializeOpenGL :: "64 word list \<Rightarrow> XrResult"
  isD3D12Session :: bool
  isVulkanSession :: bool
  isOpenGLSession :: bool
  xrCreateReferenceSpace :: "XrReferenceSpaceType \<Rightarrow> XrSpace \<Rightarrow> XrResult \<times> XrSpace"
  xrDestroySwapchain :: "XrSwapchain \<Rightarrow> XrResult"
  xrDestroySpace :: "XrSpace \<Rightarrow> XrResult"

text \<open>
  The members of \<^verbatim>\<open>OpenXrRuntime\<close> that session.cpp touches. \<open>m_swapchains\<close> is the
  \<^verbatim>\<open>std::set\<close> of swapchain handles in iteration order, so its head is
  \<^verbatim>\<open>*m_swapchains.begin()\<close>. \<open>m_frameDuration\<close> is declared outside session.cpp and is
  taken to be a \<^verbatim>\<open>double\<close>, as the times of the SDK are; \<open>m_joystickDeadzone\<close> is a
  \<^verbatim>\<open>float\<close>; \<open>m_gpuFrameTimeOverrideUs\<close> holds the result of a cast to
  \<^verbatim>\<open>uint64_t\<close>.
\<close>

record runtime =
  m_instanceCreated :: bool
  m_systemCreated :: bool
  m_graphicsRequirementQueried :: bool
  has_XR_KHR_D3D11_enable :: bool
  has_XR_KHR_D3D12_enable :: bool
  has_XR_KHR_vulkan_enable :: bool
  has_XR_KHR_vulkan_enable2 :: bool
  has_XR_KHR_opengl_enable :: bool
  m_sessionCreated :: bool
  m_sessionState :: XrSessionState
  m_sessionStateDirty :: bool
  m_sessionStateEventTime :: real
  m_sessionExiting :: bool
  m_sessionStartTime :: real
  m_sessionTotalFrameCount :: nat
  m_originSpace :: XrSpace
  m_viewSpace :: XrSpace
  m_swapchains :: "XrSwapchain list"
  m_useParallelProjection :: bool
  m_frameWaited :: bool
  m_frameBegun :: bool
  m_lastFrameWaitedTime :: "real option"
  m_frameTimes :: "real list"
  m_isControllerActive :: "bool list"
  m_activeActionSets :: "XrActionSet list"
  m_validActionSets :: "XrActionSet list"
  m_swapGripAimPoses :: bool
  m_forcedInteractionProfile :: "ForcedInteractionProfile option"
  m_gpuFrameTimeOverrideOffsetUs :: int
  m_gpuFrameTimeFilterLength :: int
  m_frameDuration :: real
  m_joystickDeadzone :: real
  m_gpuFrameTimeOverrideUs :: "nat option"
  trace :: "event list"

definition emit :: "event \<Rightarrow> runtime \<Rightarrow> runtime" where
  "emit e rt = rt\<lparr>trace := trace rt @ [e]\<rparr>"

definition set_sessionCreated :: "bool \<Rightarrow> runtime \<Rightarrow> runtime" where
  "set_sessionCreated b rt = emit (Store_sessionCreated b) (rt\<lparr>m_sessionCreated := b\<rparr>)"

definition set_sessionState :: "XrSessionState \<Rightarrow> runtime \<Rightarrow> runtime" where
  "set_sessionState s rt = emit (Store_sessionState s) (rt\<lparr>m_sessionState := s\<rparr>)"

definition set_sessionStateDirty :: "bool \<Rightarrow> runtime \<Rightarrow> runtime" where
  "set_sessionStateDirty b rt =
     emit (Store_sessionStateDirty b) (rt\<lparr>m_sessionStateDirty := b\<rparr>)"

definition set_sessionStateEventTime :: "real \<Rightarrow> runtime \<Rightarrow> runtime" where
  "set_sessionStateEventTime t rt =
     emit (Store_sessionStateEventTime t) (rt\<lparr>m_sessionStateEventTime := t\<rparr>)"

definition set_sessionExiting :: "bool \<Rightarrow> runtime \<Rightarrow> runtime" where
  "set_sessionExiting b rt = emit (Store_sessionExiting b) (rt\<lparr>m_sessionExiting := b\<rparr>)"

definition set_originSpace :: "XrSpace \<Rightarrow> runtime \<Rightarrow> runtime" where
  "set_originSpace h rt = emit (Store_originSpace h) (rt\<lparr>m_originSpace := h\<rparr>)"

definition set_viewSpace :: "XrSpace \<Rightarrow> runtime \<Rightarrow> runtime" where
  "set_viewSpace h rt = emit (Store_viewSpace h) (rt\<lparr>m_viewSpace := h\<rparr>)"

subsection \<open>xrBeginSession, xrEndSession, xrRequestExitSession\<close>

definition xrBeginSession ::
  "env \<Rightarrow> XrSession \<Rightarrow> XrSessionBeginInfo \<Rightarrow> runtime \<Rightarrow> outcome \<times> runtime" where
  "xrBeginSession ev session beginInfo rt =
     (if beginInfo_type beginInfo \<noteq> XR_TYPE_SESSION_BEGIN_INFO then
        (Return XR_ERROR_VALIDATION_FAILURE, rt)
      else if \<not> m_sessionCreated rt \<or> session \<noteq> 1 then
        (Return XR_ERROR_HANDLE_INVALID, rt)
      else if primaryViewConfigurationType beginInfo
                \<noteq> XR_VIEW_CONFIGURATION_TYPE_PRIMARY_STEREO then
        (Return XR_ERROR_VIEW_CONFIGURATION_TYPE_UNSUPPORTED, rt)
      else if m_sessionState rt \<noteq> XR_SESSION_STATE_IDLE
                \<and> m_sessionState rt \<noteq> XR_SESSION_STATE_READY then
        (Return XR_ERROR_SESSION_NOT_READY, rt)
      else
        (Return XR_SUCCESS,
         set_sessionStateEventTime (pvr_getTimeSeconds ev)
           (set_sessionStateDirty True
             (set_sessionState XR_SESSION_STATE_SYNCHRONIZED rt))))"

definition xrEndSession :: "env \<Rightarrow> XrSession \<Rightarrow> runtime \<Rightarrow> outcome \<times> runtime" where
  "xrEndSession ev session rt =
     (if \<not> m_sessionCreated rt \<or> session \<noteq> 1 then
        (Return XR_ERROR_HANDLE_INVALID, rt)
      else if m_sessionState rt \<noteq> XR_SESSION_STATE_STOPPING then
        (Return XR_ERROR_SESSION_NOT_STOPPING, rt)
      else
        (Return XR_SUCCESS,
         set_sessionStateEventTime (pvr_getTimeSeconds ev)
           (set_sessionStateDirty True
             (set_sessionState XR_SESSION_STATE_IDLE
               (set_sessionExiting True rt)))))"

definition xrRequestExitSession :: "env \<Rightarrow> XrSession \<Rightarrow> runtime \<Rightarrow> outcome \<times> runtime" where
  "xrRequestExitSession ev session rt =
     (if \<not> m_sessionCreated rt \<or> session \<noteq> 1 then
        (Return XR_ERROR_HANDLE_INVALID, rt)
      else if m_sessionState rt \<noteq> XR_SESSION_STATE_SYNCHRONIZED
                \<and> m_sessionState rt \<noteq> XR_SESSION_STATE_VISIBLE
                \<and> m_sessionState rt \<noteq> XR_SESSION_STATE_FOCUSED then
        (Return XR_ERROR_SESSION_NOT_RUNNING, rt)
      else
        (Return XR_SUCCESS,
         set_sessionStateEventTime (pvr_getTimeSeconds ev)
           (set_sessionStateDirty True
             (set_sessionState XR_SESSION_STATE_STOPPING rt))))"

subsection \<open>refreshSettings\<close>

definition value_or :: "'a option \<Rightarrow> 'a \<Rightarrow> 'a" where
  "value_or opt d = (case opt of None \<Rightarrow> d | Some v \<Rightarrow> v)"

text \<open>
  Reads the dynamic settings from the registry (lines 310 to 332). The deadzone is a
  \<^verbatim>\<open>float\<close> quotient. The frame time override is the product
  \<^verbatim>\<open>multiplier * 10.f * m_frameDuration * 1000.f\<close>, evaluated from the left: the first
  product is a \<^verbatim>\<open>float\<close>, the other two are \<^verbatim>\<open>double\<close>; it is then cast to
  \<^verbatim>\<open>uint64_t\<close>.
\<close>

definition refreshSettings :: "env \<Rightarrow> runtime \<Rightarrow> runtime" where
  "refreshSettings ev rt =
     (let rt0 = rt\<lparr>m_joystickDeadzone :=
                     float_div (float_of_int (value_or (getSetting ev ''joystick_deadzone'') 2)) 100\<rparr>;
          rt1 = rt0\<lparr>m_swapGripAimPoses := (value_or (getSetting ev ''swap_grip_aim_poses'') 0 \<noteq> 0)\<rparr>;
          forcedInteractionProfile = value_or (getSetting ev ''force_interaction_profile'') 0;
          rt2 = (if forcedInteractionProfile = 1 then
                   rt1\<lparr>m_forcedInteractionProfile := Some OculusTouchController\<rparr>
                 else if forcedInteractionProfile = 2 then
                   rt1\<lparr>m_forcedInteractionProfile := Some MicrosoftMotionController\<rparr>
                 else
                   rt1\<lparr>m_forcedInteractionProfile := None\<rparr>);
          rt3 = rt2\<lparr>m_gpuFrameTimeOverrideOffsetUs :=
                       value_or (getSetting ev ''frame_time_override_offset'') 0\<rparr>;
          rt4 = rt3\<lparr>m_gpuFrameTimeOverrideUs :=
                       uint64_of_double
                         (double_mul
                            (double_mul
                               (float_mul
                                  (float_of_int
                                     (value_or (getSetting ev ''frame_time_override_multiplier'') 0))
                                  10)
                               (m_frameDuration rt3))
                            1000)\<rparr>
      in rt4\<lparr>m_gpuFrameTimeFilterLength :=
                value_or (getSetting ev ''frame_time_filter_length'') 5\<rparr>)"

subsection \<open>xrCreateSession\<close>

text \<open>
  Lines 67 to 118: the scan of the \<^verbatim>\<open>next\<close> chain. \<open>Inl result\<close> is the
  \<^verbatim>\<open>return result\<close> inside the loop, \<open>Inr b\<close> is leaving the loop with
  \<^verbatim>\<open>hasGraphicsBindings == b\<close>.
\<close>

fun scanGraphicsBindings ::
  "env \<Rightarrow> XrBaseInStructure list \<Rightarrow> runtime \<Rightarrow> (XrResult + bool) \<times> runtime" where
  "scanGraphicsBindings ev [] rt = (Inr False, rt)"
| "scanGraphicsBindings ev (entry # rest) rt =
     (if has_XR_KHR_D3D11_enable rt
          \<and> entry_type entry = XR_TYPE_GRAPHICS_BINDING_D3D11_KHR then
        (let result = initializeD3D11 ev (entry_body entry);
             rt' = emit (Call_initializeD3D11 (entry_body entry)) rt
         in if XR_FAILED result then (Inl result, rt') else (Inr True, rt'))
      else if has_XR_KHR_D3D12_enable rt
          \<and> entry_type entry = XR_TYPE_GRAPHICS_BINDING_D3D12_KHR then
        (let result = initializeD3D12 ev (entry_body entry);
             rt' = emit (Call_initializeD3D12 (entry_body entry)) rt
         in if XR_FAILED result then (Inl result, rt') else (Inr True, rt'))
      else if (has_XR_KHR_vulkan_enable rt \<or> has_XR_KHR_vulkan_enable2 rt)
          \<and> entry_type entry = XR_TYPE_GRAPHICS_BINDING_VULKAN_KHR then
        (let result = initializeVulkan ev (entry_body entry);
             rt' = emit (Call_initializeVulkan (entry_body entry)) rt
         in if XR_FAILED result then (Inl result, rt') else (Inr True, rt'))
      else if has_XR_KHR_opengl_enable rt
          \<and> entry_type entry = XR_TYPE_GRAPHICS_BINDING_OPENGL_WIN32_KHR then
        (let result = initializeOpenGL ev (entry_body entry);
             rt' = emit (Call_initializeOpenGL (entry_body entry)) rt
         in if XR_FAILED result then (Inl result, rt') else (Inr True, rt'))
      else scanGraphicsBindings ev rest rt)"

text \<open>
  Lines 124 to 154: read the configuration, refresh the settings, log the scenario.
  Modelled from the spec: \<^verbatim>\<open>CHECK_PVRCMD\<close> is a macro defined outside session.cpp; a
  failed recenter command "propagates immediately", here as the exception
  \<open>PvrCommandFailed\<close>.
\<close>

definition readConfiguration :: "env \<Rightarrow> runtime \<Rightarrow> exception option \<times> runtime" where
  "readConfiguration ev rt =
     (let recenter = (value_or (getSetting ev ''recenter_on_startup'') 1 \<noteq> 0);
          rt1 = (if recenter then emit Call_pvr_recenterTrackingOrigin rt else rt)
      in if recenter \<and> pvr_recenterTrackingOrigin ev \<noteq> pvr_success then
           (Some (PvrCommandFailed (pvr_recenterTrackingOrigin ev)), rt1)
         else
           (let rt2 = rt1\<lparr>m_useParallelProjection :=
                            (pvr_getIntConfig ev ''steamvr_use_native_fov'' 0 = 0)\<rparr>;
                rt3 = refreshSettings ev rt2;
                enableLighthouse = (pvr_getIntConfig ev ''enable_lighthouse_tracking'' 0 \<noteq> 0);
                fovLevel = pvr_getIntConfig ev ''fov_level'' 1
            in (None,
                emit (Call_logScenario
                        (if isD3D12Session ev then ''D3D12''
                         else if isVulkanSession ev then ''Vulkan''
                         else if isOpenGLSession ev then ''OpenGL''
                         else ''D3D11'')
                        enableLighthouse fovLevel (m_useParallelProjection rt3))
                  rt3)))"

text \<open>Lines 156 to 175: mark the session created and reset the session and frame state.\<close>

definition resetSessionState :: "env \<Rightarrow> runtime \<Rightarrow> runtime" where
  "resetSessionState ev rt =
     (let rt1 = set_sessionCreated True rt;
          rt2 = set_sessionState XR_SESSION_STATE_IDLE rt1;
          rt3 = set_sessionStateDirty True rt2;
          rt4 = set_sessionStateEventTime (pvr_getTimeSeconds ev) rt3;
          rt5 = rt4\<lparr>m_frameBegun := False, m_frameWaited := False\<rparr>;
          rt6 = rt5\<lparr>m_lastFrameWaitedTime := None\<rparr>;
          rt7 = rt6\<lparr>m_frameTimes := []\<rparr>;
          rt8 = rt7\<lparr>m_isControllerActive := (m_isControllerActive rt7)[1 := False, 0 := False]\<rparr>;
          rt9 = emit (Call_rebindControllerActions 0) rt8;
          rt10 = emit (Call_rebindControllerActions 1) rt9;
          rt11 = rt10\<lparr>m_activeActionSets := []\<rparr>;
          rt12 = rt11\<lparr>m_validActionSets := []\<rparr>;
          rt13 = rt12\<lparr>m_sessionStartTime := m_sessionStateEventTime rt12\<rparr>
      in rt13\<lparr>m_sessionTotalFrameCount := 0\<rparr>)"

text \<open>
  Lines 178 to 190, the body of the \<^verbatim>\<open>try\<close> block: the origin space (local) and the
  view space. Modelled from the spec: \<^verbatim>\<open>CHECK_XRCMD\<close> is a macro defined outside
  session.cpp; a failed command is raised as an exception ("re-raising the failure"),
  here \<open>XrCommandFailed\<close>.
\<close>

definition createReferenceSpaces :: "env \<Rightarrow> runtime \<Rightarrow> exception option \<times> runtime" where
  "createReferenceSpaces ev rt =
     (let (result1, origin) = xrCreateReferenceSpace ev XR_REFERENCE_SPACE_TYPE_LOCAL (m_originSpace rt);
          rt1 = (emit (Call_xrCreateReferenceSpace XR_REFERENCE_SPACE_TYPE_LOCAL) rt)
                  \<lparr>m_originSpace := origin\<rparr>
      in if XR_FAILED result1 then (Some (XrCommandFailed result1), rt1)
         else
           (let (result2, view) = xrCreateReferenceSpace ev XR_REFERENCE_SPACE_TYPE_VIEW (m_viewSpace rt1);
                rt2 = (emit (Call_xrCreateReferenceSpace XR_REFERENCE_SPACE_TYPE_VIEW) rt1)
                        \<lparr>m_viewSpace := view\<rparr>
            in if XR_FAILED result2 then (Some (XrCommandFailed result2), rt2)
               else (None, rt2)))"

text \<open>
  The entry point. \<open>session\<close> is the content of \<^verbatim>\<open>*session\<close> before the call, the second
  component of the result its content afterwards.
\<close>

definition xrCreateSession ::
  "env \<Rightarrow> XrInstance \<Rightarrow> XrSessionCreateInfo \<Rightarrow> XrSession \<Rightarrow> runtime
     \<Rightarrow> outcome \<times> XrSession \<times> runtime" where
  "xrCreateSession ev instance createInfo session rt =
     (if createInfo_type createInfo \<noteq> XR_TYPE_SESSION_CREATE_INFO then
        (Return XR_ERROR_VALIDATION_FAILURE, session, rt)
      else if \<not> m_instanceCreated rt \<or> instance \<noteq> 1 then
        (Return XR_ERROR_HANDLE_INVALID, session, rt)
      else if \<not> m_systemCreated rt \<or> systemId createInfo \<noteq> 1 then
        (Return XR_ERROR_SYSTEM_INVALID, session, rt)
      else if \<not> m_graphicsRequirementQueried rt then
        (Return XR_ERROR_GRAPHICS_REQUIREMENTS_CALL_MISSING, session, rt)
      else if m_sessionCreated rt then
        (Return XR_ERROR_LIMIT_REACHED, session, rt)
      else
        (case scanGraphicsBindings ev (createInfo_next createInfo) rt of
           (Inl result, rt1) \<Rightarrow> (Return result, session, rt1)
         | (Inr hasGraphicsBindings, rt1) \<Rightarrow>
             if \<not> hasGraphicsBindings then
               (Return XR_ERROR_GRAPHICS_DEVICE_INVALID, session, rt1)
             else
               (case readConfiguration ev rt1 of
                  (Some exc, rt2) \<Rightarrow> (Throw exc, session, rt2)
                | (None, rt2) \<Rightarrow>
                    (case createReferenceSpaces ev (resetSessionState ev rt2) of
                       (Some exc, rt3) \<Rightarrow> (Throw exc, session, set_sessionCreated False rt3)
                     | (None, rt3) \<Rightarrow> (Return XR_SUCCESS, 1, rt3)))))"

subsection \<open>xrDestroySession\<close>

text \<open>
  Lines 214 to 216: \<^verbatim>\<open>while (m_swapchains.size())\<close> destroys the first swapchain of
  the set. Modelled from the spec: \<^verbatim>\<open>xrDestroySwapchain\<close> is defined outside session.cpp;
  a successful call removes the swapchain from the set the session owns ("mutated only by
  creation (insert) and destruction"), a failed call is raised by \<^verbatim>\<open>CHECK_XRCMD\<close> and
  "aborts remaining teardown".
\<close>

function destroySwapchains :: "env \<Rightarrow> runtime \<Rightarrow> exception option \<times> runtime" where
  "destroySwapchains ev rt =
     (if m_swapchains rt = [] then (None, rt)
      else
        (let swapchain = hd (m_swapchains rt);
             result = xrDestroySwapchain ev swapchain;
             rt' = emit (Call_xrDestroySwapchain swapchain) rt
         in if XR_FAILED result then (Some (XrCommandFailed result), rt')
            else destroySwapchains ev
                   (rt'\<lparr>m_swapchains := removeAll swapchain (m_swapchains rt')\<rparr>)))"
  by pat_completeness auto
termination
  by (relation "measure (\<lambda>(ev, rt). length (m_swapchains rt))")
     (auto simp: emit_def length_removeAll_less)

declare destroySwapchains.simps [simp del]

text \<open>Lines 219 to 222: destroy the two reference spaces and clear their handles.\<close>

definition destroyReferenceSpaces :: "env \<Rightarrow> runtime \<Rightarrow> exception option \<times> runtime" where
  "destroyReferenceSpaces ev rt =
     (let result1 = xrDestroySpace ev (m_originSpace rt);
          rt1 = emit (Call_xrDestroySpace (m_originSpace rt)) rt
      in if XR_FAILED result1 then (Some (XrCommandFailed result1), rt1)
         else
           (let rt2 = set_originSpace XR_NULL_HANDLE rt1;
                result2 = xrDestroySpace ev (m_viewSpace rt2);
                rt3 = emit (Call_xrDestroySpace (m_viewSpace rt2)) rt2
            in if XR_FAILED result2 then (Some (XrCommandFailed result2), rt3)
               else (None, set_viewSpace XR_NULL_HANDLE rt3)))"

text \<open>Lines 225 to 232: clean up the four backends and reset the session members.\<close>

definition cleanupSession :: "runtime \<Rightarrow> runtime" where
  "cleanupSession rt =
     (let rt1 = emit Call_cleanupOpenGL rt;
          rt2 = emit Call_cleanupVulkan rt1;
          rt3 = emit Call_cleanupD3D12 rt2;
          rt4 = emit Call_cleanupD3D11 rt3;
          rt5 = set_sessionState XR_SESSION_STATE_UNKNOWN rt4;
          rt6 = set_sessionStateDirty False rt5;
          rt7 = set_sessionCreated False rt6
      in set_sessionExiting False rt7)"

definition xrDestroySession :: "env \<Rightarrow> XrSession \<Rightarrow> runtime \<Rightarrow> outcome \<times> runtime" where
  "xrDestroySession ev session rt =
     (if \<not> m_sessionCreated rt \<or> session \<noteq> 1 then
        (Return XR_ERROR_HANDLE_INVALID, rt)
      else
        (let rt1 = emit (Call_logUsage
                           (double_sub (pvr_getTimeSeconds ev) (m_sessionStartTime rt))
                           (m_sessionTotalFrameCount rt)) rt
         in case destroySwapchains ev rt1 of
              (Some exc, rt2) \<Rightarrow> (Throw exc, rt2)
            | (None, rt2) \<Rightarrow>
                (case destroyReferenceSpaces ev rt2 of
                   (Some exc, rt3) \<Rightarrow> (Throw exc, rt3)
                 | (None, rt3) \<Rightarrow> (Return XR_SUCCESS, cleanupSession rt3))))"

subsection \<open>Concrete collaborators and runtimes\<close>

text \<open>
  Collaborators that all succeed, with an empty registry and the clock at 10 seconds; a
  runtime whose instance and system exist, whose graphics requirements were queried and
  which was created with the D3D11 and Vulkan extensions, with the double nearest to 11.11
  as frame duration; the same runtime holding an idle session.
\<close>

definition env_ok :: env where
  "env_ok =
     \<lparr>getSetting = (\<lambda>name. None),
      pvr_getIntConfig = (\<lambda>name d. d),
      pvr_recenterTrackingOrigin = 0,
      pvr_getTimeSeconds = 10,
      initializeD3D11 = (\<lambda>body. 0),
      initializeD3D12 = (\<lambda>body. 0),
      initializeVulkan = (\<lambda>body. 0),
      initializeOpenGL = (\<lambda>body. 0),
      isD3D12Session = False,
      isVulkanSession = False,
      isOpenGLSession = False,
      xrCreateReferenceSpace =
        (\<lambda>t h. (0, if t = XR_REFERENCE_SPACE_TYPE_LOCAL then 100 else 101)),
      xrDestroySwapchain = (\<lambda>h. 0),
      xrDestroySpace = (\<lambda>h. 0)\<rparr>"

definition runtime_start :: runtime where
  "runtime_start =
     \<lparr>m_instanceCreated = True,
      m_systemCreated = True,
      m_graphicsRequirementQueried = True,
      has_XR_KHR_D3D11_enable = True,
      has_XR_KHR_D3D12_enable = False,
      has_XR_KHR_vulkan_enable = True,
      has_XR_KHR_vulkan_enable2 = False,
      has_XR_KHR_opengl_enable = False,
      m_sessionCreated = False,
      m_sessionState = XR_SESSION_STATE_UNKNOWN,
      m_sessionStateDirty = False,
      m_sessionStateEventTime = 0,
      m_sessionExiting = False,
      m_sessionStartTime = 0,
      m_sessionTotalFrameCount = 0,
      m_originSpace = 0,
      m_viewSpace = 0,
      m_swapchains = [],
      m_useParallelProjection = False,
      m_frameWaited = False,
      m_frameBegun = False,
      m_lastFrameWaitedTime = None,
      m_frameTimes = [],
      m_isControllerActive = [False, False],
      m_activeActionSets = [],
      m_validActionSets = [],
      m_swapGripAimPoses = False,
      m_forcedInteractionProfile = None,
      m_gpuFrameTimeOverrideOffsetUs = 0,
      m_gpuFrameTimeFilterLength = 5,
      m_frameDuration = 781796747813847 / 70368744177664,
      m_joystickDeadzone = 5368709 / 268435456,
      m_gpuFrameTimeOverrideUs = Some 0,
      trace = []\<rparr>"

definition runtime_idle :: runtime where
  "runtime_idle =
     runtime_start\<lparr>m_sessionCreated := True, m_sessionState := XR_SESSION_STATE_IDLE,
                    m_originSpace := 100, m_viewSpace := 101\<rparr>"

definition beginInfo_stereo :: XrSessionBeginInfo where
  "beginInfo_stereo =
     \<lparr>beginInfo_type = XR_TYPE_SESSION_BEGIN_INFO,
      primaryViewConfigurationType = XR_VIEW_CONFIGURATION_TYPE_PRIMARY_STEREO\<rparr>"

definition createInfo_d3d11_vulkan :: XrSessionCreateInfo where
  "createInfo_d3d11_vulkan =
     \<lparr>createInfo_type = XR_TYPE_SESSION_CREATE_INFO,
      createInfo_next =
        [\<lparr>entry_type = XR_TYPE_GRAPHICS_BINDING_D3D11_KHR, entry_body = [7]\<rparr>,
         \<lparr>entry_type = XR_TYPE_GRAPHICS_BINDING_VULKAN_KHR, entry_body = [8, 9]\<rparr>],
      createFlags = 0,
      systemId = 1\<rparr>"

subsection \<open>Notions of the specification\<close>

text \<open>
  An entry of the chain is eligible when its type tag is one of the four graphics binding
  kinds and the extension of that kind was enabled when the instance was created. The
  initializer of an entry is the one of its kind.
\<close>

definition eligible :: "runtime \<Rightarrow> XrBaseInStructure \<Rightarrow> bool" where
  "eligible rt entry =
     (has_XR_KHR_D3D11_enable rt \<and> entry_type entry = XR_TYPE_GRAPHICS_BINDING_D3D11_KHR
      \<or> has_XR_KHR_D3D12_enable rt \<and> entry_type entry = XR_TYPE_GRAPHICS_BINDING_D3D12_KHR
      \<or> (has_XR_KHR_vulkan_enable rt \<or> has_XR_KHR_vulkan_enable2 rt)
          \<and> entry_type entry = XR_TYPE_GRAPHICS_BINDING_VULKAN_KHR
      \<or> has_XR_KHR_opengl_enable rt
          \<and> entry_type entry = XR_TYPE_GRAPHICS_BINDING_OPENGL_WIN32_KHR)"

definition initializer_call :: "XrBaseInStructure \<Rightarrow> event" where
  "initializer_call entry =
     (if entry_type entry = XR_TYPE_GRAPHICS_BINDING_D3D11_KHR then
        Call_initializeD3D11 (entry_body entry)
      else if entry_type entry = XR_TYPE_GRAPHICS_BINDING_D3D12_KHR then
        Call_initializeD3D12 (entry_body entry)
      else if entry_type entry = XR_TYPE_GRAPHICS_BINDING_VULKAN_KHR then
        Call_initializeVulkan (entry_body entry)
      else Call_initializeOpenGL (entry_body entry))"

definition initializer_result :: "env \<Rightarrow> XrBaseInStructure \<Rightarrow> XrResult" where
  "initializer_result ev entry =
     (if entry_type entry = XR_TYPE_GRAPHICS_BINDING_D3D11_KHR then
        initializeD3D11 ev (entry_body entry)
      else if entry_type entry = XR_TYPE_GRAPHICS_BINDING_D3D12_KHR then
        initializeD3D12 ev (entry_body entry)
      else if entry_type entry = XR_TYPE_GRAPHICS_BINDING_VULKAN_KHR then
        initializeVulkan ev (entry_body entry)
      else initializeOpenGL ev (entry_body entry))"

fun is_initializer_call :: "event \<Rightarrow> bool" where
  "is_initializer_call (Call_initializeD3D11 body) = True"
| "is_initializer_call (Call_initializeD3D12 body) = True"
| "is_initializer_call (Call_initializeVulkan body) = True"
| "is_initializer_call (Call_initializeOpenGL body) = True"
| "is_initializer_call e = False"

fun is_cleanup_call :: "event \<Rightarrow> bool" where
  "is_cleanup_call Call_cleanupOpenGL = True"
| "is_cleanup_call Call_cleanupVulkan = True"
| "is_cleanup_call Call_cleanupD3D12 = True"
| "is_cleanup_call Call_cleanupD3D11 = True"
| "is_cleanup_call e = False"

definition initializer_calls :: "event list \<Rightarrow> event list" where
  "initializer_calls tr = filter is_initializer_call tr"

definition cleanup_calls :: "event list \<Rightarrow> event list" where
  "cleanup_calls tr = filter is_cleanup_call tr"

section \<open>Properties\<close>

subsection \<open>Auxiliary facts\<close>

lemmas result_defs =
  XR_SUCCESS_def XR_ERROR_VALIDATION_FAILURE_def XR_ERROR_RUNTIME_FAILURE_def
  XR_ERROR_LIMIT_REACHED_def
  XR_ERROR_HANDLE_INVALID_def XR_ERROR_SESSION_NOT_RUNNING_def XR_ERROR_SYSTEM_INVALID_def
  XR_ERROR_SESSION_NOT_READY_def XR_ERROR_SESSION_NOT_STOPPING_def
  XR_ERROR_GRAPHICS_DEVICE_INVALID_def XR_ERROR_VIEW_CONFIGURATION_TYPE_UNSUPPORTED_def
  XR_ERROR_GRAPHICS_REQUIREMENTS_CALL_MISSING_def

lemmas type_defs =
  XR_TYPE_SESSION_CREATE_INFO_def XR_TYPE_SESSION_BEGIN_INFO_def
  XR_TYPE_GRAPHICS_BINDING_OPENGL_WIN32_KHR_def XR_TYPE_GRAPHICS_BINDING_VULKAN_KHR_def
  XR_TYPE_GRAPHICS_BINDING_D3D11_KHR_def XR_TYPE_GRAPHICS_BINDING_D3D12_KHR_def

lemmas setter_defs =
  emit_def set_sessionCreated_def set_sessionState_def set_sessionStateDirty_def
  set_sessionStateEventTime_def set_sessionExiting_def set_originSpace_def set_viewSpace_def

subsection \<open>Floating point facts\<close>

lemma ilog2_numeral:
  "ilog2 (numeral k) x =
     (if 2 \<le> x then ilog2 (pred_numeral k) (x / 2) + 1
      else if x < 1 then ilog2 (pred_numeral k) (x * 2) - 1
      else 0)"
  by (simp add: numeral_eq_Suc)

lemmas float_eval = round_double_def round_float_def round_ieee_def round_half_even_def
  pow2_def ilog2_numeral Let_def


















subsection \<open>Facts about creation\<close>

lemma scanGraphicsBindings_find:
  "scanGraphicsBindings ev chain rt =
     (case find (eligible rt) chain of
        None \<Rightarrow> (Inr False, rt)
      | Some entry \<Rightarrow>
          (if XR_FAILED (initializer_result ev entry) then Inl (initializer_result ev entry)
           else Inr True,
           emit (initializer_call entry) rt))"
proof (induction chain)
  case Nil
  show ?case by simp
next
  case (Cons entry rest)
  show ?case
  proof (cases "eligible rt entry")
    case True
    then show ?thesis
      by (auto simp: eligible_def initializer_call_def initializer_result_def type_defs Let_def)
  next
    case False
    then have "scanGraphicsBindings ev (entry # rest) rt = scanGraphicsBindings ev rest rt"
      by (auto simp: eligible_def)
    with Cons False show ?thesis by simp
  qed
qed

lemma trace_readConfiguration:
  "trace (snd (readConfiguration ev rt)) =
     trace rt
     @ (if value_or (getSetting ev ''recenter_on_startup'') 1 \<noteq> 0
        then [Call_pvr_recenterTrackingOrigin] else [])
     @ (if fst (readConfiguration ev rt) = None
        then [Call_logScenario
                (if isD3D12Session ev then ''D3D12''
                 else if isVulkanSession ev then ''Vulkan''
                 else if isOpenGLSession ev then ''OpenGL''
                 else ''D3D11'')
                (pvr_getIntConfig ev ''enable_lighthouse_tracking'' 0 \<noteq> 0)
                (pvr_getIntConfig ev ''fov_level'' 1)
                (pvr_getIntConfig ev ''steamvr_use_native_fov'' 0 = 0)]
        else [])"
  by (simp add: readConfiguration_def refreshSettings_def emit_def Let_def)

lemma fst_readConfiguration:
  "fst (readConfiguration ev rt) =
     (if value_or (getSetting ev ''recenter_on_startup'') 1 \<noteq> 0
         \<and> pvr_recenterTrackingOrigin ev \<noteq> pvr_success
      then Some (PvrCommandFailed (pvr_recenterTrackingOrigin ev)) else None)"
  by (simp add: readConfiguration_def Let_def)

lemma readConfiguration_keeps:
  "m_originSpace (snd (readConfiguration ev rt)) = m_originSpace rt"
  "m_viewSpace (snd (readConfiguration ev rt)) = m_viewSpace rt"
  "m_sessionCreated (snd (readConfiguration ev rt)) = m_sessionCreated rt"
  by (simp_all add: readConfiguration_def refreshSettings_def emit_def Let_def)

lemma trace_resetSessionState:
  "trace (resetSessionState ev rt) =
     trace rt @ [Store_sessionCreated True, Store_sessionState XR_SESSION_STATE_IDLE,
                 Store_sessionStateDirty True,
                 Store_sessionStateEventTime (pvr_getTimeSeconds ev),
                 Call_rebindControllerActions 0, Call_rebindControllerActions 1]"
  by (simp add: resetSessionState_def setter_defs Let_def)

lemma resetSessionState_fields:
  "m_sessionCreated (resetSessionState ev rt) = True"
  "m_sessionState (resetSessionState ev rt) = XR_SESSION_STATE_IDLE"
  "m_sessionStateDirty (resetSessionState ev rt) = True"
  "m_sessionStateEventTime (resetSessionState ev rt) = pvr_getTimeSeconds ev"
  "m_sessionStartTime (resetSessionState ev rt) = pvr_getTimeSeconds ev"
  "m_sessionTotalFrameCount (resetSessionState ev rt) = 0"
  "m_originSpace (resetSessionState ev rt) = m_originSpace rt"
  "m_viewSpace (resetSessionState ev rt) = m_viewSpace rt"
  by (simp_all add: resetSessionState_def setter_defs Let_def)

lemma fst_createReferenceSpaces:
  "fst (createReferenceSpaces ev rt) =
     (if XR_FAILED (fst (xrCreateReferenceSpace ev XR_REFERENCE_SPACE_TYPE_LOCAL (m_originSpace rt)))
      then Some (XrCommandFailed
                   (fst (xrCreateReferenceSpace ev XR_REFERENCE_SPACE_TYPE_LOCAL (m_originSpace rt))))
      else if XR_FAILED (fst (xrCreateReferenceSpace ev XR_REFERENCE_SPACE_TYPE_VIEW (m_viewSpace rt)))
      then Some (XrCommandFailed
                   (fst (xrCreateReferenceSpace ev XR_REFERENCE_SPACE_TYPE_VIEW (m_viewSpace rt))))
      else None)"
  by (simp add: createReferenceSpaces_def emit_def Let_def split: prod.splits)

lemma trace_createReferenceSpaces:
  "trace (snd (createReferenceSpaces ev rt)) =
     trace rt @ [Call_xrCreateReferenceSpace XR_REFERENCE_SPACE_TYPE_LOCAL]
     @ (if XR_FAILED (fst (xrCreateReferenceSpace ev XR_REFERENCE_SPACE_TYPE_LOCAL (m_originSpace rt)))
        then [] else [Call_xrCreateReferenceSpace XR_REFERENCE_SPACE_TYPE_VIEW])"
  by (simp add: createReferenceSpaces_def emit_def Let_def split: prod.splits)

lemma createReferenceSpaces_keeps:
  "m_sessionCreated (snd (createReferenceSpaces ev rt)) = m_sessionCreated rt"
  "m_sessionState (snd (createReferenceSpaces ev rt)) = m_sessionState rt"
  "m_sessionStateDirty (snd (createReferenceSpaces ev rt)) = m_sessionStateDirty rt"
  "m_sessionStateEventTime (snd (createReferenceSpaces ev rt)) = m_sessionStateEventTime rt"
  "m_sessionStartTime (snd (createReferenceSpaces ev rt)) = m_sessionStartTime rt"
  by (simp_all add: createReferenceSpaces_def emit_def Let_def split: prod.splits)

lemma calls_emit:
  "initializer_calls (trace (emit e rt)) =
     initializer_calls (trace rt) @ (if is_initializer_call e then [e] else [])"
  "cleanup_calls (trace (emit e rt)) =
     cleanup_calls (trace rt) @ (if is_cleanup_call e then [e] else [])"
  by (simp_all add: emit_def initializer_calls_def cleanup_calls_def)

lemma initializer_call_is_initializer:
  "is_initializer_call (initializer_call entry)"
  "\<not> is_cleanup_call (initializer_call entry)"
  by (simp_all add: initializer_call_def)

lemma calls_readConfiguration:
  assumes "readConfiguration ev rt = (exc, rt')"
  shows "initializer_calls (trace rt') = initializer_calls (trace rt)"
    and "cleanup_calls (trace rt') = cleanup_calls (trace rt)"
  using trace_readConfiguration [of ev rt] assms
  by (simp_all add: initializer_calls_def cleanup_calls_def)

lemma calls_resetSessionState:
  "initializer_calls (trace (resetSessionState ev rt)) = initializer_calls (trace rt)"
  "cleanup_calls (trace (resetSessionState ev rt)) = cleanup_calls (trace rt)"
  by (simp_all add: trace_resetSessionState initializer_calls_def cleanup_calls_def)

lemma calls_createReferenceSpaces:
  assumes "createReferenceSpaces ev rt = (exc, rt')"
  shows "initializer_calls (trace rt') = initializer_calls (trace rt)"
    and "cleanup_calls (trace rt') = cleanup_calls (trace rt)"
  using trace_createReferenceSpaces [of ev rt] assms
  by (simp_all add: initializer_calls_def cleanup_calls_def)

lemma calls_set_sessionCreated:
  "initializer_calls (trace (set_sessionCreated b rt)) = initializer_calls (trace rt)"
  "cleanup_calls (trace (set_sessionCreated b rt)) = cleanup_calls (trace rt)"
  by (simp_all add: set_sessionCreated_def emit_def initializer_calls_def cleanup_calls_def)

text \<open>What \<open>xrCreateSession\<close> does once its five preconditions hold.\<close>

lemma xrCreateSession_passed:
  assumes "createInfo_type createInfo = XR_TYPE_SESSION_CREATE_INFO"
    and "m_instanceCreated rt" and "instance = 1"
    and "m_systemCreated rt" and "systemId createInfo = 1"
    and "m_graphicsRequirementQueried rt"
    and "\<not> m_sessionCreated rt"
  shows "xrCreateSession ev instance createInfo session rt =
     (case find (eligible rt) (createInfo_next createInfo) of
        None \<Rightarrow> (Return XR_ERROR_GRAPHICS_DEVICE_INVALID, session, rt)
      | Some entry \<Rightarrow>
          if XR_FAILED (initializer_result ev entry) then
            (Return (initializer_result ev entry), session, emit (initializer_call entry) rt)
          else
            (case readConfiguration ev (emit (initializer_call entry) rt) of
               (Some exc, rt2) \<Rightarrow> (Throw exc, session, rt2)
             | (None, rt2) \<Rightarrow>
                 (case createReferenceSpaces ev (resetSessionState ev rt2) of
                    (Some exc, rt3) \<Rightarrow> (Throw exc, session, set_sessionCreated False rt3)
                  | (None, rt3) \<Rightarrow> (Return XR_SUCCESS, 1, rt3))))"
  using assms
  by (simp add: xrCreateSession_def scanGraphicsBindings_find split: option.splits)

lemma xrCreateSession_initializer_calls:
  assumes "createInfo_type createInfo = XR_TYPE_SESSION_CREATE_INFO"
    and "m_instanceCreated rt" and "instance = 1"
    and "m_systemCreated rt" and "systemId createInfo = 1"
    and "m_graphicsRequirementQueried rt"
    and "\<not> m_sessionCreated rt"
    and "find (eligible rt) (createInfo_next createInfo) = Some entry"
  shows "initializer_calls (trace (snd (snd (xrCreateSession ev instance createInfo session rt))))
           = initializer_calls (trace rt) @ [initializer_call entry]"
    and "cleanup_calls (trace (snd (snd (xrCreateSession ev instance createInfo session rt))))
           = cleanup_calls (trace rt)"
  using assms(8)
  by (auto simp: xrCreateSession_passed [OF assms(1-7)] calls_emit
        initializer_call_is_initializer calls_readConfiguration calls_resetSessionState
        calls_createReferenceSpaces calls_set_sessionCreated
      split: option.splits prod.splits)

subsection \<open>Creation\<close>

text \<open>
  C1. The preconditions of \<open>xrCreateSession\<close> are checked in order: the structure tag
  (validation failure), the instance handle (handle invalid), the system identifier
  (system invalid), the graphics requirements query (call missing), the absence of a
  session (limit reached). The first check that fails decides the error, the five errors
  differ from each other, and the runtime and \<open>*session\<close> are left as they were; in
  particular an existing session keeps its state, flags and resources.
\<close>

theorem xrCreateSession_precondition_order:
  "(createInfo_type createInfo \<noteq> XR_TYPE_SESSION_CREATE_INFO \<longrightarrow>
      xrCreateSession ev instance createInfo session rt
        = (Return XR_ERROR_VALIDATION_FAILURE, session, rt))
   \<and> (createInfo_type createInfo = XR_TYPE_SESSION_CREATE_INFO
        \<and> (\<not> m_instanceCreated rt \<or> instance \<noteq> 1) \<longrightarrow>
      xrCreateSession ev instance createInfo session rt
        = (Return XR_ERROR_HANDLE_INVALID, session, rt))
   \<and> (createInfo_type createInfo = XR_TYPE_SESSION_CREATE_INFO
        \<and> m_instanceCreated rt \<and> instance = 1
        \<and> (\<not> m_systemCreated rt \<or> systemId createInfo \<noteq> 1) \<longrightarrow>
      xrCreateSession ev instance createInfo session rt
        = (Return XR_ERROR_SYSTEM_INVALID, session, rt))
   \<and> (createInfo_type createInfo = XR_TYPE_SESSION_CREATE_INFO
        \<and> m_instanceCreated rt \<and> instance = 1
        \<and> m_systemCreated rt \<and> systemId createInfo = 1
        \<and> \<not> m_graphicsRequirementQueried rt \<longrightarrow>
      xrCreateSession ev instance createInfo session rt
        = (Return XR_ERROR_GRAPHICS_REQUIREMENTS_CALL_MISSING, session, rt))
   \<and> (createInfo_type createInfo = XR_TYPE_SESSION_CREATE_INFO
        \<and> m_instanceCreated rt \<and> instance = 1
        \<and> m_systemCreated rt \<and> systemId createInfo = 1
        \<and> m_graphicsRequirementQueried rt
        \<and> m_sessionCreated rt \<longrightarrow>
      xrCreateSession ev instance createInfo session rt
        = (Return XR_ERROR_LIMIT_REACHED, session, rt))
   \<and> distinct [XR_ERROR_VALIDATION_FAILURE, XR_ERROR_HANDLE_INVALID, XR_ERROR_SYSTEM_INVALID,
               XR_ERROR_GRAPHICS_REQUIREMENTS_CALL_MISSING, XR_ERROR_LIMIT_REACHED]"
proof -
  have "distinct [XR_ERROR_VALIDATION_FAILURE, XR_ERROR_HANDLE_INVALID, XR_ERROR_SYSTEM_INVALID,
                  XR_ERROR_GRAPHICS_REQUIREMENTS_CALL_MISSING, XR_ERROR_LIMIT_REACHED]"
    by (simp add: result_defs)
  then show ?thesis
    by (simp add: xrCreateSession_def)
qed

theorem xrCreateSession_precondition_order_witness:
  "xrCreateSession env_ok 1
       (createInfo_d3d11_vulkan\<lparr>createInfo_type := XR_TYPE_SESSION_BEGIN_INFO\<rparr>) 0 runtime_start
     = (Return XR_ERROR_VALIDATION_FAILURE, 0, runtime_start)
   \<and> xrCreateSession env_ok 2 createInfo_d3d11_vulkan 0 runtime_start
     = (Return XR_ERROR_HANDLE_INVALID, 0, runtime_start)
   \<and> xrCreateSession env_ok 1 (createInfo_d3d11_vulkan\<lparr>systemId := 2\<rparr>) 0 runtime_start
     = (Return XR_ERROR_SYSTEM_INVALID, 0, runtime_start)
   \<and> xrCreateSession env_ok 1 createInfo_d3d11_vulkan 0
       (runtime_start\<lparr>m_graphicsRequirementQueried := False\<rparr>)
     = (Return XR_ERROR_GRAPHICS_REQUIREMENTS_CALL_MISSING, 0,
        runtime_start\<lparr>m_graphicsRequirementQueried := False\<rparr>)
   \<and> xrCreateSession env_ok 1 createInfo_d3d11_vulkan 0 runtime_idle
     = (Return XR_ERROR_LIMIT_REACHED, 0, runtime_idle)"
  using
    xrCreateSession_precondition_order [of
      "createInfo_d3d11_vulkan\<lparr>createInfo_type := XR_TYPE_SESSION_BEGIN_INFO\<rparr>"
      env_ok 1 0 runtime_start]
    xrCreateSession_precondition_order [of createInfo_d3d11_vulkan env_ok 2 0 runtime_start]
    xrCreateSession_precondition_order [of "createInfo_d3d11_vulkan\<lparr>systemId := 2\<rparr>"
      env_ok 1 0 runtime_start]
    xrCreateSession_precondition_order [of createInfo_d3d11_vulkan env_ok 1 0
      "runtime_start\<lparr>m_graphicsRequirementQueried := False\<rparr>"]
    xrCreateSession_precondition_order [of createInfo_d3d11_vulkan env_ok 1 0 runtime_idle]
  by (simp add: createInfo_d3d11_vulkan_def runtime_start_def runtime_idle_def type_defs)

text \<open>
  C2. Once the preconditions hold, the scan of the chain invokes the initializer of the
  first eligible entry, in chain order, and no other initializer, whatever follows in the
  chain and however creation ends; a chain whose eligible D3D11 entry is followed by a
  Vulkan entry initializes D3D11 only. With no eligible entry creation returns the device
  invalid error and has called no collaborator. A failing initializer's own result is
  returned at once, with nothing done but that call.
\<close>

theorem xrCreateSession_first_eligible_binding:
  assumes "createInfo_type createInfo = XR_TYPE_SESSION_CREATE_INFO"
    and "m_instanceCreated rt" and "instance = 1"
    and "m_systemCreated rt" and "systemId createInfo = 1"
    and "m_graphicsRequirementQueried rt"
    and "\<not> m_sessionCreated rt"
  shows
    "(find (eligible rt) (createInfo_next createInfo) = None \<longrightarrow>
        xrCreateSession ev instance createInfo session rt
          = (Return XR_ERROR_GRAPHICS_DEVICE_INVALID, session, rt))
     \<and> (\<forall>entry. find (eligible rt) (createInfo_next createInfo) = Some entry \<longrightarrow>
          initializer_calls
              (trace (snd (snd (xrCreateSession ev instance createInfo session rt))))
            = initializer_calls (trace rt) @ [initializer_call entry]
          \<and> (XR_FAILED (initializer_result ev entry) \<longrightarrow>
               xrCreateSession ev instance createInfo session rt
                 = (Return (initializer_result ev entry), session,
                    emit (initializer_call entry) rt)))
     \<and> (\<forall>d3d11 vulkan.
          createInfo_next createInfo = [d3d11, vulkan]
          \<and> has_XR_KHR_D3D11_enable rt
          \<and> entry_type d3d11 = XR_TYPE_GRAPHICS_BINDING_D3D11_KHR
          \<and> entry_type vulkan = XR_TYPE_GRAPHICS_BINDING_VULKAN_KHR \<longrightarrow>
          initializer_calls
              (trace (snd (snd (xrCreateSession ev instance createInfo session rt))))
            = initializer_calls (trace rt) @ [Call_initializeD3D11 (entry_body d3d11)])"
proof (intro conjI allI impI)
  assume "find (eligible rt) (createInfo_next createInfo) = None"
  then show "xrCreateSession ev instance createInfo session rt
               = (Return XR_ERROR_GRAPHICS_DEVICE_INVALID, session, rt)"
    by (simp add: xrCreateSession_passed [OF assms])
next
  fix entry
  assume found: "find (eligible rt) (createInfo_next createInfo) = Some entry"
  show "initializer_calls
            (trace (snd (snd (xrCreateSession ev instance createInfo session rt))))
          = initializer_calls (trace rt) @ [initializer_call entry]"
    by (rule xrCreateSession_initializer_calls(1) [OF assms found])
next
  fix entry
  assume found: "find (eligible rt) (createInfo_next createInfo) = Some entry"
    and failed: "XR_FAILED (initializer_result ev entry)"
  then show "xrCreateSession ev instance createInfo session rt
               = (Return (initializer_result ev entry), session,
                  emit (initializer_call entry) rt)"
    by (simp add: xrCreateSession_passed [OF assms])
next
  fix d3d11 vulkan
  assume chain: "createInfo_next createInfo = [d3d11, vulkan]
          \<and> has_XR_KHR_D3D11_enable rt
          \<and> entry_type d3d11 = XR_TYPE_GRAPHICS_BINDING_D3D11_KHR
          \<and> entry_type vulkan = XR_TYPE_GRAPHICS_BINDING_VULKAN_KHR"
  then have "find (eligible rt) (createInfo_next createInfo) = Some d3d11"
    by (simp add: eligible_def)
  moreover from chain have "initializer_call d3d11 = Call_initializeD3D11 (entry_body d3d11)"
    by (simp add: initializer_call_def)
  ultimately show "initializer_calls
            (trace (snd (snd (xrCreateSession ev instance createInfo session rt))))
          = initializer_calls (trace rt) @ [Call_initializeD3D11 (entry_body d3d11)]"
    using xrCreateSession_initializer_calls(1) [OF assms] by simp
qed

theorem xrCreateSession_first_eligible_binding_witness:
  "initializer_calls
       (trace (snd (snd (xrCreateSession env_ok 1 createInfo_d3d11_vulkan 0 runtime_start))))
     = [Call_initializeD3D11 [7]]
   \<and> xrCreateSession env_ok 1
       (createInfo_d3d11_vulkan\<lparr>createInfo_next :=
          [\<lparr>entry_type = XR_TYPE_GRAPHICS_BINDING_OPENGL_WIN32_KHR, entry_body = [3, 4]\<rparr>]\<rparr>)
       0 runtime_start
     = (Return XR_ERROR_GRAPHICS_DEVICE_INVALID, 0, runtime_start)
   \<and> xrCreateSession (env_ok\<lparr>initializeD3D11 := (\<lambda>body. - 2)\<rparr>) 1 createInfo_d3d11_vulkan 0
       runtime_start
     = (Return (- 2), 0, runtime_start\<lparr>trace := [Call_initializeD3D11 [7]]\<rparr>)"
proof -
  have pre:
    "createInfo_type createInfo_d3d11_vulkan = XR_TYPE_SESSION_CREATE_INFO"
    "m_instanceCreated runtime_start" "(1 :: XrInstance) = 1"
    "m_systemCreated runtime_start" "systemId createInfo_d3d11_vulkan = 1"
    "m_graphicsRequirementQueried runtime_start"
    "\<not> m_sessionCreated runtime_start"
    by (simp_all add: createInfo_d3d11_vulkan_def runtime_start_def)
  have pre':
    "createInfo_type (createInfo_d3d11_vulkan\<lparr>createInfo_next :=
          [\<lparr>entry_type = XR_TYPE_GRAPHICS_BINDING_OPENGL_WIN32_KHR, entry_body = [3, 4]\<rparr>]\<rparr>)
       = XR_TYPE_SESSION_CREATE_INFO"
    "systemId (createInfo_d3d11_vulkan\<lparr>createInfo_next :=
          [\<lparr>entry_type = XR_TYPE_GRAPHICS_BINDING_OPENGL_WIN32_KHR, entry_body = [3, 4]\<rparr>]\<rparr>) = 1"
    by (simp_all add: createInfo_d3d11_vulkan_def)
  have found: "find (eligible runtime_start) (createInfo_next createInfo_d3d11_vulkan)
                 = Some \<lparr>entry_type = XR_TYPE_GRAPHICS_BINDING_D3D11_KHR, entry_body = [7]\<rparr>"
    by (simp add: createInfo_d3d11_vulkan_def runtime_start_def eligible_def)
  have none: "find (eligible runtime_start)
                (createInfo_next (createInfo_d3d11_vulkan\<lparr>createInfo_next :=
                   [\<lparr>entry_type = XR_TYPE_GRAPHICS_BINDING_OPENGL_WIN32_KHR,
                     entry_body = [3, 4]\<rparr>]\<rparr>)) = None"
    by (simp add: runtime_start_def eligible_def type_defs)
  note main = xrCreateSession_first_eligible_binding [OF pre(1-7), of _ 0]
  note main' = xrCreateSession_first_eligible_binding
                 [OF pre'(1) pre(2,3,4) pre'(2) pre(6,7), of env_ok 0]
  from main [of env_ok] found
  have "initializer_calls
       (trace (snd (snd (xrCreateSession env_ok 1 createInfo_d3d11_vulkan 0 runtime_start))))
     = [Call_initializeD3D11 [7]]"
    by (simp add: initializer_call_def initializer_calls_def runtime_start_def)
  moreover from main' none
  have "xrCreateSession env_ok 1
       (createInfo_d3d11_vulkan\<lparr>createInfo_next :=
          [\<lparr>entry_type = XR_TYPE_GRAPHICS_BINDING_OPENGL_WIN32_KHR, entry_body = [3, 4]\<rparr>]\<rparr>)
       0 runtime_start
     = (Return XR_ERROR_GRAPHICS_DEVICE_INVALID, 0, runtime_start)"
    by simp
  moreover from main [of "env_ok\<lparr>initializeD3D11 := (\<lambda>body. - 2)\<rparr>"] found
  have "xrCreateSession (env_ok\<lparr>initializeD3D11 := (\<lambda>body. - 2)\<rparr>) 1 createInfo_d3d11_vulkan 0
       runtime_start
     = (Return (- 2), 0, runtime_start\<lparr>trace := [Call_initializeD3D11 [7]]\<rparr>)"
    by (simp add: initializer_call_def initializer_result_def XR_FAILED_def emit_def
          runtime_start_def)
  ultimately show ?thesis by simp
qed

subsection \<open>The state machine\<close>

text \<open>
  C4. \<open>xrBeginSession\<close> checks, in this order, the structure tag (validation failure),
  the session handle (handle invalid), the primary view configuration type (view
  configuration type unsupported) and the current state (session not ready, for instance
  from the focused state); a failed check returns its error and leaves the runtime as
  it was. When all four pass the call succeeds and the state is synchronized.
\<close>

theorem xrBeginSession_check_order:
  "(beginInfo_type beginInfo \<noteq> XR_TYPE_SESSION_BEGIN_INFO \<longrightarrow>
      xrBeginSession ev session beginInfo rt = (Return XR_ERROR_VALIDATION_FAILURE, rt))
   \<and> (beginInfo_type beginInfo = XR_TYPE_SESSION_BEGIN_INFO
        \<and> (\<not> m_sessionCreated rt \<or> session \<noteq> 1) \<longrightarrow>
      xrBeginSession ev session beginInfo rt = (Return XR_ERROR_HANDLE_INVALID, rt))
   \<and> (beginInfo_type beginInfo = XR_TYPE_SESSION_BEGIN_INFO
        \<and> m_sessionCreated rt \<and> session = 1
        \<and> primaryViewConfigurationType beginInfo \<noteq> XR_VIEW_CONFIGURATION_TYPE_PRIMARY_STEREO \<longrightarrow>
      xrBeginSession ev session beginInfo rt
        = (Return XR_ERROR_VIEW_CONFIGURATION_TYPE_UNSUPPORTED, rt))
   \<and> (beginInfo_type beginInfo = XR_TYPE_SESSION_BEGIN_INFO
        \<and> m_sessionCreated rt \<and> session = 1
        \<and> primaryViewConfigurationType beginInfo = XR_VIEW_CONFIGURATION_TYPE_PRIMARY_STEREO
        \<and> m_sessionState rt \<noteq> XR_SESSION_STATE_IDLE
        \<and> m_sessionState rt \<noteq> XR_SESSION_STATE_READY \<longrightarrow>
      xrBeginSession ev session beginInfo rt = (Return XR_ERROR_SESSION_NOT_READY, rt))
   \<and> (beginInfo_type beginInfo = XR_TYPE_SESSION_BEGIN_INFO
        \<and> m_sessionCreated rt \<and> session = 1
        \<and> primaryViewConfigurationType beginInfo = XR_VIEW_CONFIGURATION_TYPE_PRIMARY_STEREO
        \<and> m_sessionState rt = XR_SESSION_STATE_FOCUSED \<longrightarrow>
      xrBeginSession ev session beginInfo rt = (Return XR_ERROR_SESSION_NOT_READY, rt))
   \<and> (beginInfo_type beginInfo = XR_TYPE_SESSION_BEGIN_INFO
        \<and> m_sessionCreated rt \<and> session = 1
        \<and> primaryViewConfigurationType beginInfo = XR_VIEW_CONFIGURATION_TYPE_PRIMARY_STEREO
        \<and> (m_sessionState rt = XR_SESSION_STATE_IDLE
            \<or> m_sessionState rt = XR_SESSION_STATE_READY) \<longrightarrow>
      fst (xrBeginSession ev session beginInfo rt) = Return XR_SUCCESS
      \<and> m_sessionState (snd (xrBeginSession ev session beginInfo rt))
          = XR_SESSION_STATE_SYNCHRONIZED)
   \<and> distinct [XR_SUCCESS, XR_ERROR_VALIDATION_FAILURE, XR_ERROR_HANDLE_INVALID,
               XR_ERROR_VIEW_CONFIGURATION_TYPE_UNSUPPORTED, XR_ERROR_SESSION_NOT_READY]"
proof -
  have "distinct [XR_SUCCESS, XR_ERROR_VALIDATION_FAILURE, XR_ERROR_HANDLE_INVALID,
                  XR_ERROR_VIEW_CONFIGURATION_TYPE_UNSUPPORTED, XR_ERROR_SESSION_NOT_READY]"
    by (simp add: result_defs)
  then show ?thesis
    by (auto simp: xrBeginSession_def setter_defs)
qed

theorem xrBeginSession_check_order_witness:
  "xrBeginSession env_ok 1 (beginInfo_stereo\<lparr>beginInfo_type := XR_TYPE_SESSION_CREATE_INFO\<rparr>)
       runtime_idle
     = (Return XR_ERROR_VALIDATION_FAILURE, runtime_idle)
   \<and> xrBeginSession env_ok 2 beginInfo_stereo runtime_idle
     = (Return XR_ERROR_HANDLE_INVALID, runtime_idle)
   \<and> xrBeginSession env_ok 1 beginInfo_stereo runtime_start
     = (Return XR_ERROR_HANDLE_INVALID, runtime_start)
   \<and> xrBeginSession env_ok 1
       (beginInfo_stereo\<lparr>primaryViewConfigurationType := XR_VIEW_CONFIGURATION_TYPE_PRIMARY_MONO\<rparr>)
       runtime_idle
     = (Return XR_ERROR_VIEW_CONFIGURATION_TYPE_UNSUPPORTED, runtime_idle)
   \<and> xrBeginSession env_ok 1 beginInfo_stereo
       (runtime_idle\<lparr>m_sessionState := XR_SESSION_STATE_FOCUSED\<rparr>)
     = (Return XR_ERROR_SESSION_NOT_READY, runtime_idle\<lparr>m_sessionState := XR_SESSION_STATE_FOCUSED\<rparr>)
   \<and> fst (xrBeginSession env_ok 1 beginInfo_stereo runtime_idle) = Return XR_SUCCESS
   \<and> m_sessionState (snd (xrBeginSession env_ok 1 beginInfo_stereo runtime_idle))
       = XR_SESSION_STATE_SYNCHRONIZED"
  using
    xrBeginSession_check_order [where beginInfo =
       "beginInfo_stereo\<lparr>beginInfo_type := XR_TYPE_SESSION_CREATE_INFO\<rparr>"
       and ev = env_ok and session = 1 and rt = runtime_idle]
    xrBeginSession_check_order [where beginInfo = beginInfo_stereo
       and ev = env_ok and session = 2 and rt = runtime_idle]
    xrBeginSession_check_order [where beginInfo = beginInfo_stereo
       and ev = env_ok and session = 1 and rt = runtime_start]
    xrBeginSession_check_order [where beginInfo =
       "beginInfo_stereo\<lparr>primaryViewConfigurationType := XR_VIEW_CONFIGURATION_TYPE_PRIMARY_MONO\<rparr>"
       and ev = env_ok and session = 1 and rt = runtime_idle]
    xrBeginSession_check_order [where beginInfo = beginInfo_stereo
       and ev = env_ok and session = 1
       and rt = "runtime_idle\<lparr>m_sessionState := XR_SESSION_STATE_FOCUSED\<rparr>"]
    xrBeginSession_check_order [where beginInfo = beginInfo_stereo
       and ev = env_ok and session = 1 and rt = runtime_idle]
  by (simp add: beginInfo_stereo_def runtime_idle_def runtime_start_def type_defs
        XR_VIEW_CONFIGURATION_TYPE_PRIMARY_STEREO_def XR_VIEW_CONFIGURATION_TYPE_PRIMARY_MONO_def)

text \<open>
  C5. On the handle of the created session, \<open>xrEndSession\<close> fails with session not
  stopping and leaves the runtime as it was unless the state is stopping; from the
  stopping state it succeeds, the state becomes idle and the exiting flag true, so that
  an \<open>xrEndSession\<close> that follows at once fails with session not stopping.
\<close>

theorem xrEndSession_requires_stopping:
  assumes "m_sessionCreated rt" and "session = 1"
  shows
    "(m_sessionState rt \<noteq> XR_SESSION_STATE_STOPPING \<longrightarrow>
        xrEndSession ev session rt = (Return XR_ERROR_SESSION_NOT_STOPPING, rt))
     \<and> (m_sessionState rt = XR_SESSION_STATE_STOPPING \<longrightarrow>
          fst (xrEndSession ev session rt) = Return XR_SUCCESS
          \<and> m_sessionState (snd (xrEndSession ev session rt)) = XR_SESSION_STATE_IDLE
          \<and> m_sessionExiting (snd (xrEndSession ev session rt))
          \<and> xrEndSession ev' session (snd (xrEndSession ev session rt))
              = (Return XR_ERROR_SESSION_NOT_STOPPING, snd (xrEndSession ev session rt)))
     \<and> XR_FAILED XR_ERROR_SESSION_NOT_STOPPING \<and> \<not> XR_FAILED XR_SUCCESS"
  using assms
  by (simp add: xrEndSession_def setter_defs XR_FAILED_def
        XR_ERROR_SESSION_NOT_STOPPING_def XR_SUCCESS_def)

theorem xrEndSession_requires_stopping_witness:
  "xrEndSession env_ok 1 runtime_idle = (Return XR_ERROR_SESSION_NOT_STOPPING, runtime_idle)
   \<and> fst (xrEndSession env_ok 1 (runtime_idle\<lparr>m_sessionState := XR_SESSION_STATE_STOPPING\<rparr>))
       = Return XR_SUCCESS
   \<and> m_sessionState
       (snd (xrEndSession env_ok 1 (runtime_idle\<lparr>m_sessionState := XR_SESSION_STATE_STOPPING\<rparr>)))
       = XR_SESSION_STATE_IDLE
   \<and> m_sessionExiting
       (snd (xrEndSession env_ok 1 (runtime_idle\<lparr>m_sessionState := XR_SESSION_STATE_STOPPING\<rparr>)))
   \<and> fst (xrEndSession env_ok 1
       (snd (xrEndSession env_ok 1 (runtime_idle\<lparr>m_sessionState := XR_SESSION_STATE_STOPPING\<rparr>))))
       = Return XR_ERROR_SESSION_NOT_STOPPING"
proof -
  have idle: "m_sessionCreated runtime_idle" "(1 :: XrSession) = 1"
    "m_sessionState runtime_idle \<noteq> XR_SESSION_STATE_STOPPING"
    by (simp_all add: runtime_idle_def runtime_start_def)
  have stopping:
    "m_sessionCreated (runtime_idle\<lparr>m_sessionState := XR_SESSION_STATE_STOPPING\<rparr>)"
    "m_sessionState (runtime_idle\<lparr>m_sessionState := XR_SESSION_STATE_STOPPING\<rparr>)
       = XR_SESSION_STATE_STOPPING"
    by (simp_all add: runtime_idle_def runtime_start_def)
  from xrEndSession_requires_stopping [OF idle(1,2), of env_ok env_ok] idle(3)
    xrEndSession_requires_stopping [OF stopping(1) idle(2), of env_ok env_ok] stopping(2)
  show ?thesis by simp
qed

text \<open>
  C6. On the handle of the created session, \<open>xrRequestExitSession\<close> succeeds from the
  synchronized, visible and focused states and makes the state stopping; from every other
  state, the idle state among them, it fails with session not running and leaves the
  runtime as it was.
\<close>

theorem xrRequestExitSession_requires_running:
  assumes "m_sessionCreated rt" and "session = 1"
  shows
    "(m_sessionState rt = XR_SESSION_STATE_SYNCHRONIZED
        \<or> m_sessionState rt = XR_SESSION_STATE_VISIBLE
        \<or> m_sessionState rt = XR_SESSION_STATE_FOCUSED \<longrightarrow>
        fst (xrRequestExitSession ev session rt) = Return XR_SUCCESS
        \<and> m_sessionState (snd (xrRequestExitSession ev session rt))
            = XR_SESSION_STATE_STOPPING)
     \<and> (m_sessionState rt \<noteq> XR_SESSION_STATE_SYNCHRONIZED
        \<and> m_sessionState rt \<noteq> XR_SESSION_STATE_VISIBLE
        \<and> m_sessionState rt \<noteq> XR_SESSION_STATE_FOCUSED \<longrightarrow>
        xrRequestExitSession ev session rt = (Return XR_ERROR_SESSION_NOT_RUNNING, rt))
     \<and> (m_sessionState rt = XR_SESSION_STATE_IDLE \<longrightarrow>
        xrRequestExitSession ev session rt = (Return XR_ERROR_SESSION_NOT_RUNNING, rt))
     \<and> XR_FAILED XR_ERROR_SESSION_NOT_RUNNING \<and> \<not> XR_FAILED XR_SUCCESS"
  using assms
  by (auto simp: xrRequestExitSession_def setter_defs XR_FAILED_def
        XR_ERROR_SESSION_NOT_RUNNING_def XR_SUCCESS_def)

theorem xrRequestExitSession_requires_running_witness:
  "fst (xrRequestExitSession env_ok 1
          (runtime_idle\<lparr>m_sessionState := XR_SESSION_STATE_SYNCHRONIZED\<rparr>)) = Return XR_SUCCESS
   \<and> m_sessionState (snd (xrRequestExitSession env_ok 1
          (runtime_idle\<lparr>m_sessionState := XR_SESSION_STATE_SYNCHRONIZED\<rparr>)))
       = XR_SESSION_STATE_STOPPING
   \<and> xrRequestExitSession env_ok 1 runtime_idle
       = (Return XR_ERROR_SESSION_NOT_RUNNING, runtime_idle)"
proof -
  have idle: "m_sessionCreated runtime_idle" "(1 :: XrSession) = 1"
    "m_sessionState runtime_idle = XR_SESSION_STATE_IDLE"
    by (simp_all add: runtime_idle_def runtime_start_def)
  have running:
    "m_sessionCreated (runtime_idle\<lparr>m_sessionState := XR_SESSION_STATE_SYNCHRONIZED\<rparr>)"
    "m_sessionState (runtime_idle\<lparr>m_sessionState := XR_SESSION_STATE_SYNCHRONIZED\<rparr>)
       = XR_SESSION_STATE_SYNCHRONIZED"
    by (simp_all add: runtime_idle_def runtime_start_def)
  from xrRequestExitSession_requires_running [OF idle(1,2), of env_ok] idle(3)
    xrRequestExitSession_requires_running [OF running(1) idle(2), of env_ok] running(2)
  show ?thesis by simp
qed

subsection \<open>Destruction\<close>

text \<open>
  The swapchain loop stops at the first swapchain whose destruction fails: the swapchains
  before it are destroyed and removed, it and those after it stay in the set.
\<close>

lemma destroySwapchains_result:
  assumes "distinct (m_swapchains rt)"
  shows "destroySwapchains ev rt =
     (case find (\<lambda>s. XR_FAILED (xrDestroySwapchain ev s)) (m_swapchains rt) of
        None \<Rightarrow>
          (None,
           rt\<lparr>m_swapchains := [],
              trace := trace rt @ map Call_xrDestroySwapchain (m_swapchains rt)\<rparr>)
      | Some swapchain \<Rightarrow>
          (Some (XrCommandFailed (xrDestroySwapchain ev swapchain)),
           rt\<lparr>m_swapchains :=
                dropWhile (\<lambda>s. \<not> XR_FAILED (xrDestroySwapchain ev s)) (m_swapchains rt),
              trace := trace rt
                @ map Call_xrDestroySwapchain
                    (takeWhile (\<lambda>s. \<not> XR_FAILED (xrDestroySwapchain ev s)) (m_swapchains rt))
                @ [Call_xrDestroySwapchain swapchain]\<rparr>))"
  using assms
proof (induction "m_swapchains rt" arbitrary: rt)
  case Nil
  then have empty: "m_swapchains rt = []" by simp
  then have "rt\<lparr>m_swapchains := []\<rparr> = rt" by (cases rt) simp
  with empty show ?case by (subst destroySwapchains.simps) simp
next
  case (Cons swapchain rest)
  then have scs: "m_swapchains rt = swapchain # rest" by simp
  show ?case
  proof (cases "XR_FAILED (xrDestroySwapchain ev swapchain)")
    case True
    from scs have "rt\<lparr>m_swapchains := swapchain # rest\<rparr> = rt" by (cases rt) simp
    with True scs show ?thesis
      by (subst destroySwapchains.simps) (simp add: emit_def Let_def)
  next
    case False
    let ?rt' = "(emit (Call_xrDestroySwapchain swapchain) rt)\<lparr>m_swapchains := rest\<rparr>"
    from Cons.prems scs have fresh: "swapchain \<notin> set rest" and rest: "distinct rest"
      by simp_all
    have step: "destroySwapchains ev rt = destroySwapchains ev ?rt'"
      using scs False fresh by (subst destroySwapchains.simps) (simp add: emit_def Let_def)
    have "destroySwapchains ev ?rt' =
     (case find (\<lambda>s. XR_FAILED (xrDestroySwapchain ev s)) (m_swapchains ?rt') of
        None \<Rightarrow>
          (None,
           ?rt'\<lparr>m_swapchains := [],
              trace := trace ?rt' @ map Call_xrDestroySwapchain (m_swapchains ?rt')\<rparr>)
      | Some swapchain \<Rightarrow>
          (Some (XrCommandFailed (xrDestroySwapchain ev swapchain)),
           ?rt'\<lparr>m_swapchains :=
                dropWhile (\<lambda>s. \<not> XR_FAILED (xrDestroySwapchain ev s)) (m_swapchains ?rt'),
              trace := trace ?rt'
                @ map Call_xrDestroySwapchain
                    (takeWhile (\<lambda>s. \<not> XR_FAILED (xrDestroySwapchain ev s)) (m_swapchains ?rt'))
                @ [Call_xrDestroySwapchain swapchain]\<rparr>))"
      using rest by (intro Cons.hyps(1)) (simp_all add: emit_def)
    with step scs False show ?thesis
      by (simp add: emit_def split: option.splits)
  qed
qed

lemma destroySwapchains_keeps:
  "m_sessionCreated (snd (destroySwapchains ev rt)) = m_sessionCreated rt
   \<and> m_sessionState (snd (destroySwapchains ev rt)) = m_sessionState rt
   \<and> m_originSpace (snd (destroySwapchains ev rt)) = m_originSpace rt
   \<and> m_viewSpace (snd (destroySwapchains ev rt)) = m_viewSpace rt
   \<and> cleanup_calls (trace (snd (destroySwapchains ev rt))) = cleanup_calls (trace rt)"
proof (induction ev rt rule: destroySwapchains.induct)
  case (1 ev rt)
  show ?case
  proof (cases "m_swapchains rt = [] \<or> XR_FAILED (xrDestroySwapchain ev (hd (m_swapchains rt)))")
    case True
    then show ?thesis
      by (subst (1 2 3 4 5) destroySwapchains.simps)
         (auto simp: emit_def Let_def cleanup_calls_def)
  next
    case False
    let ?rt' = "(emit (Call_xrDestroySwapchain (hd (m_swapchains rt))) rt)
                  \<lparr>m_swapchains := removeAll (hd (m_swapchains rt)) (m_swapchains rt)\<rparr>"
    from False have step: "destroySwapchains ev rt = destroySwapchains ev ?rt'"
      by (subst destroySwapchains.simps) (simp add: emit_def Let_def)
    from False have IH:
      "m_sessionCreated (snd (destroySwapchains ev ?rt')) = m_sessionCreated ?rt'
       \<and> m_sessionState (snd (destroySwapchains ev ?rt')) = m_sessionState ?rt'
       \<and> m_originSpace (snd (destroySwapchains ev ?rt')) = m_originSpace ?rt'
       \<and> m_viewSpace (snd (destroySwapchains ev ?rt')) = m_viewSpace ?rt'
       \<and> cleanup_calls (trace (snd (destroySwapchains ev ?rt'))) = cleanup_calls (trace ?rt')"
      using "1.IH" [of "hd (m_swapchains rt)" "xrDestroySwapchain ev (hd (m_swapchains rt))"
                       "emit (Call_xrDestroySwapchain (hd (m_swapchains rt))) rt"]
      by (simp add: emit_def)
    then show ?thesis
      unfolding step by (simp add: emit_def cleanup_calls_def)
  qed
qed

lemma destroyReferenceSpaces_keeps:
  "m_sessionCreated (snd (destroyReferenceSpaces ev rt)) = m_sessionCreated rt"
  "m_sessionState (snd (destroyReferenceSpaces ev rt)) = m_sessionState rt"
  "cleanup_calls (trace (snd (destroyReferenceSpaces ev rt))) = cleanup_calls (trace rt)"
  by (simp_all add: destroyReferenceSpaces_def setter_defs cleanup_calls_def Let_def)

text \<open>
  What \<open>xrDestroySession\<close> does on the handle of the created session: it leaves by the
  first destruction that fails, or completes the teardown.
\<close>

lemma xrDestroySession_result:
  assumes "m_sessionCreated rt" and "distinct (m_swapchains rt)"
  shows "xrDestroySession ev 1 rt =
     (let usage = Call_logUsage (double_sub (pvr_getTimeSeconds ev) (m_sessionStartTime rt))
                    (m_sessionTotalFrameCount rt);
          ok = (\<lambda>s. \<not> XR_FAILED (xrDestroySwapchain ev s))
      in case find (\<lambda>s. XR_FAILED (xrDestroySwapchain ev s)) (m_swapchains rt) of
           Some swapchain \<Rightarrow>
             (Throw (XrCommandFailed (xrDestroySwapchain ev swapchain)),
              rt\<lparr>m_swapchains := dropWhile ok (m_swapchains rt),
                 trace := trace rt @ [usage]
                   @ map Call_xrDestroySwapchain (takeWhile ok (m_swapchains rt))
                   @ [Call_xrDestroySwapchain swapchain]\<rparr>)
         | None \<Rightarrow>
             if XR_FAILED (xrDestroySpace ev (m_originSpace rt)) then
               (Throw (XrCommandFailed (xrDestroySpace ev (m_originSpace rt))),
                rt\<lparr>m_swapchains := [],
                   trace := trace rt @ [usage]
                     @ map Call_xrDestroySwapchain (m_swapchains rt)
                     @ [Call_xrDestroySpace (m_originSpace rt)]\<rparr>)
             else if XR_FAILED (xrDestroySpace ev (m_viewSpace rt)) then
               (Throw (XrCommandFailed (xrDestroySpace ev (m_viewSpace rt))),
                rt\<lparr>m_swapchains := [],
                   m_originSpace := XR_NULL_HANDLE,
                   trace := trace rt @ [usage]
                     @ map Call_xrDestroySwapchain (m_swapchains rt)
                     @ [Call_xrDestroySpace (m_originSpace rt), Store_originSpace XR_NULL_HANDLE,
                        Call_xrDestroySpace (m_viewSpace rt)]\<rparr>)
             else
               (Return XR_SUCCESS,
                rt\<lparr>m_sessionCreated := False,
                   m_sessionState := XR_SESSION_STATE_UNKNOWN,
                   m_sessionStateDirty := False,
                   m_sessionExiting := False,
                   m_originSpace := XR_NULL_HANDLE,
                   m_viewSpace := XR_NULL_HANDLE,
                   m_swapchains := [],
                   trace := trace rt @ [usage]
                     @ map Call_xrDestroySwapchain (m_swapchains rt)
                     @ [Call_xrDestroySpace (m_originSpace rt), Store_originSpace XR_NULL_HANDLE,
                        Call_xrDestroySpace (m_viewSpace rt), Store_viewSpace XR_NULL_HANDLE,
                        Call_cleanupOpenGL, Call_cleanupVulkan, Call_cleanupD3D12,
                        Call_cleanupD3D11,
                        Store_sessionState XR_SESSION_STATE_UNKNOWN,
                        Store_sessionStateDirty False,
                        Store_sessionCreated False, Store_sessionExiting False]\<rparr>))"
proof -
  let ?rt1 = "emit (Call_logUsage (double_sub (pvr_getTimeSeconds ev) (m_sessionStartTime rt))
                      (m_sessionTotalFrameCount rt)) rt"
  have "distinct (m_swapchains ?rt1)" using assms(2) by (simp add: emit_def)
  note loop = destroySwapchains_result [OF this, of ev]
  show ?thesis
  proof (cases "find (\<lambda>s. XR_FAILED (xrDestroySwapchain ev s)) (m_swapchains rt)")
    case None
    with loop assms(1) show ?thesis
      by (simp add: xrDestroySession_def destroyReferenceSpaces_def cleanupSession_def
            setter_defs Let_def)
  next
    case (Some swapchain)
    with loop assms(1) show ?thesis
      by (simp add: xrDestroySession_def emit_def Let_def)
  qed
qed

lemma xrDestroySession_thrown:
  assumes "fst (xrDestroySession ev session rt) = Throw exc"
  shows "m_sessionCreated (snd (xrDestroySession ev session rt))"
    and "m_sessionState (snd (xrDestroySession ev session rt)) = m_sessionState rt"
    and "cleanup_calls (trace (snd (xrDestroySession ev session rt))) = cleanup_calls (trace rt)"
proof -
  let ?rt1 = "emit (Call_logUsage (double_sub (pvr_getTimeSeconds ev) (m_sessionStartTime rt))
                      (m_sessionTotalFrameCount rt)) rt"
  let ?rt2 = "snd (destroySwapchains ev ?rt1)"
  let ?rt3 = "snd (destroyReferenceSpaces ev ?rt2)"
  from assms have valid: "m_sessionCreated rt" "session = 1"
    by (auto simp: xrDestroySession_def split: if_splits)
  from assms valid have "snd (xrDestroySession ev session rt) = ?rt2
                          \<or> snd (xrDestroySession ev session rt) = ?rt3"
    by (auto simp: xrDestroySession_def Let_def split: prod.splits option.splits)
  moreover have "m_sessionCreated ?rt2" "m_sessionState ?rt2 = m_sessionState rt"
    "cleanup_calls (trace ?rt2) = cleanup_calls (trace rt)"
    using valid(1) destroySwapchains_keeps [of ev ?rt1]
    by (simp_all add: emit_def cleanup_calls_def)
  moreover from this have "m_sessionCreated ?rt3" "m_sessionState ?rt3 = m_sessionState rt"
    "cleanup_calls (trace ?rt3) = cleanup_calls (trace rt)"
    by (simp_all add: destroyReferenceSpaces_keeps)
  ultimately show "m_sessionCreated (snd (xrDestroySession ev session rt))"
    and "m_sessionState (snd (xrDestroySession ev session rt)) = m_sessionState rt"
    and "cleanup_calls (trace (snd (xrDestroySession ev session rt))) = cleanup_calls (trace rt)"
    by auto
qed

text \<open>
  C3, as amended. \<open>xrDestroySession\<close> with no session created, or with a handle other
  than 1, fails with handle invalid and changes nothing. On the handle of the created
  session, when every swapchain destruction and both space destructions succeed, it
  logs the usage, destroys every swapchain of the set, then destroys the origin space and
  clears its handle, destroys the view space and clears its handle, then calls the cleanup
  of OpenGL, Vulkan, D3D12 and D3D11, then stores the unknown state, the dirty flag, the
  created flag and, last, the exiting flag; a destruction that follows fails with handle
  invalid. Otherwise the call leaves by the first destruction that fails, in the order
  swapchains, origin space, view space, with the result of that destruction: nothing after
  it is done, so the session stays created in its state and no backend cleanup is called.
  The swapchains are the elements of a \<^verbatim>\<open>std::set\<close>, hence distinct.
\<close>

theorem xrDestroySession_teardown:
  "(\<not> m_sessionCreated rt \<or> session \<noteq> 1 \<longrightarrow>
      xrDestroySession ev session rt = (Return XR_ERROR_HANDLE_INVALID, rt))
   \<and> (m_sessionCreated rt \<and> session = 1 \<and> distinct (m_swapchains rt)
        \<and> (\<forall>swapchain \<in> set (m_swapchains rt).
              \<not> XR_FAILED (xrDestroySwapchain ev swapchain))
        \<and> \<not> XR_FAILED (xrDestroySpace ev (m_originSpace rt))
        \<and> \<not> XR_FAILED (xrDestroySpace ev (m_viewSpace rt)) \<longrightarrow>
      (let rt' = snd (xrDestroySession ev session rt) in
         fst (xrDestroySession ev session rt) = Return XR_SUCCESS
         \<and> trace rt' =
             trace rt
             @ [Call_logUsage (double_sub (pvr_getTimeSeconds ev) (m_sessionStartTime rt))
                  (m_sessionTotalFrameCount rt)]
             @ map Call_xrDestroySwapchain (m_swapchains rt)
             @ [Call_xrDestroySpace (m_originSpace rt), Store_originSpace XR_NULL_HANDLE,
                Call_xrDestroySpace (m_viewSpace rt), Store_viewSpace XR_NULL_HANDLE,
                Call_cleanupOpenGL, Call_cleanupVulkan, Call_cleanupD3D12, Call_cleanupD3D11,
                Store_sessionState XR_SESSION_STATE_UNKNOWN, Store_sessionStateDirty False,
                Store_sessionCreated False, Store_sessionExiting False]
         \<and> m_swapchains rt' = []
         \<and> m_originSpace rt' = XR_NULL_HANDLE \<and> m_viewSpace rt' = XR_NULL_HANDLE
         \<and> m_sessionState rt' = XR_SESSION_STATE_UNKNOWN
         \<and> \<not> m_sessionStateDirty rt' \<and> \<not> m_sessionExiting rt' \<and> \<not> m_sessionCreated rt'
         \<and> xrDestroySession ev' session rt' = (Return XR_ERROR_HANDLE_INVALID, rt')))
   \<and> (m_sessionCreated rt \<and> session = 1 \<and> distinct (m_swapchains rt) \<longrightarrow>
      (let usage = Call_logUsage (double_sub (pvr_getTimeSeconds ev) (m_sessionStartTime rt))
                     (m_sessionTotalFrameCount rt);
           ok = (\<lambda>s. \<not> XR_FAILED (xrDestroySwapchain ev s))
       in (\<forall>swapchain.
             find (\<lambda>s. XR_FAILED (xrDestroySwapchain ev s)) (m_swapchains rt) = Some swapchain
             \<longrightarrow>
             xrDestroySession ev session rt =
               (Throw (XrCommandFailed (xrDestroySwapchain ev swapchain)),
                rt\<lparr>m_swapchains := dropWhile ok (m_swapchains rt),
                   trace := trace rt @ [usage]
                     @ map Call_xrDestroySwapchain (takeWhile ok (m_swapchains rt))
                     @ [Call_xrDestroySwapchain swapchain]\<rparr>))
          \<and> ((\<forall>swapchain \<in> set (m_swapchains rt). ok swapchain)
              \<and> XR_FAILED (xrDestroySpace ev (m_originSpace rt)) \<longrightarrow>
             xrDestroySession ev session rt =
               (Throw (XrCommandFailed (xrDestroySpace ev (m_originSpace rt))),
                rt\<lparr>m_swapchains := [],
                   trace := trace rt @ [usage]
                     @ map Call_xrDestroySwapchain (m_swapchains rt)
                     @ [Call_xrDestroySpace (m_originSpace rt)]\<rparr>))
          \<and> ((\<forall>swapchain \<in> set (m_swapchains rt). ok swapchain)
              \<and> \<not> XR_FAILED (xrDestroySpace ev (m_originSpace rt))
              \<and> XR_FAILED (xrDestroySpace ev (m_viewSpace rt)) \<longrightarrow>
             xrDestroySession ev session rt =
               (Throw (XrCommandFailed (xrDestroySpace ev (m_viewSpace rt))),
                rt\<lparr>m_swapchains := [],
                   m_originSpace := XR_NULL_HANDLE,
                   trace := trace rt @ [usage]
                     @ map Call_xrDestroySwapchain (m_swapchains rt)
                     @ [Call_xrDestroySpace (m_originSpace rt), Store_originSpace XR_NULL_HANDLE,
                        Call_xrDestroySpace (m_viewSpace rt)]\<rparr>))))
   \<and> (\<forall>exc. fst (xrDestroySession ev session rt) = Throw exc \<longrightarrow>
        m_sessionCreated (snd (xrDestroySession ev session rt))
        \<and> m_sessionState (snd (xrDestroySession ev session rt)) = m_sessionState rt
        \<and> cleanup_calls (trace (snd (xrDestroySession ev session rt)))
            = cleanup_calls (trace rt))"
proof (intro conjI impI allI)
  assume "\<not> m_sessionCreated rt \<or> session \<noteq> 1"
  then show "xrDestroySession ev session rt = (Return XR_ERROR_HANDLE_INVALID, rt)"
    by (auto simp: xrDestroySession_def)
next
  assume ok: "m_sessionCreated rt \<and> session = 1 \<and> distinct (m_swapchains rt)
        \<and> (\<forall>swapchain \<in> set (m_swapchains rt).
              \<not> XR_FAILED (xrDestroySwapchain ev swapchain))
        \<and> \<not> XR_FAILED (xrDestroySpace ev (m_originSpace rt))
        \<and> \<not> XR_FAILED (xrDestroySpace ev (m_viewSpace rt))"
  then have none: "find (\<lambda>s. XR_FAILED (xrDestroySwapchain ev s)) (m_swapchains rt) = None"
    by (simp add: find_None_iff)
  from ok have "xrDestroySession ev session rt =
     (Return XR_SUCCESS,
      rt\<lparr>m_sessionCreated := False,
         m_sessionState := XR_SESSION_STATE_UNKNOWN,
         m_sessionStateDirty := False,
         m_sessionExiting := False,
         m_originSpace := XR_NULL_HANDLE,
         m_viewSpace := XR_NULL_HANDLE,
         m_swapchains := [],
         trace := trace rt
           @ [Call_logUsage (double_sub (pvr_getTimeSeconds ev) (m_sessionStartTime rt))
                (m_sessionTotalFrameCount rt)]
           @ map Call_xrDestroySwapchain (m_swapchains rt)
           @ [Call_xrDestroySpace (m_originSpace rt), Store_originSpace XR_NULL_HANDLE,
              Call_xrDestroySpace (m_viewSpace rt), Store_viewSpace XR_NULL_HANDLE,
              Call_cleanupOpenGL, Call_cleanupVulkan, Call_cleanupD3D12, Call_cleanupD3D11,
              Store_sessionState XR_SESSION_STATE_UNKNOWN, Store_sessionStateDirty False,
              Store_sessionCreated False, Store_sessionExiting False]\<rparr>)"
    using xrDestroySession_result [of rt ev] by (simp add: none Let_def)
  then show "let rt' = snd (xrDestroySession ev session rt) in
         fst (xrDestroySession ev session rt) = Return XR_SUCCESS
         \<and> trace rt' =
             trace rt
             @ [Call_logUsage (double_sub (pvr_getTimeSeconds ev) (m_sessionStartTime rt))
                  (m_sessionTotalFrameCount rt)]
             @ map Call_xrDestroySwapchain (m_swapchains rt)
             @ [Call_xrDestroySpace (m_originSpace rt), Store_originSpace XR_NULL_HANDLE,
                Call_xrDestroySpace (m_viewSpace rt), Store_viewSpace XR_NULL_HANDLE,
                Call_cleanupOpenGL, Call_cleanupVulkan, Call_cleanupD3D12, Call_cleanupD3D11,
                Store_sessionState XR_SESSION_STATE_UNKNOWN, Store_sessionStateDirty False,
                Store_sessionCreated False, Store_sessionExiting False]
         \<and> m_swapchains rt' = []
         \<and> m_originSpace rt' = XR_NULL_HANDLE \<and> m_viewSpace rt' = XR_NULL_HANDLE
         \<and> m_sessionState rt' = XR_SESSION_STATE_UNKNOWN
         \<and> \<not> m_sessionStateDirty rt' \<and> \<not> m_sessionExiting rt' \<and> \<not> m_sessionCreated rt'
         \<and> xrDestroySession ev' session rt' = (Return XR_ERROR_HANDLE_INVALID, rt')"
    by (simp add: Let_def xrDestroySession_def)
next
  assume valid: "m_sessionCreated rt \<and> session = 1 \<and> distinct (m_swapchains rt)"
  then have result: "xrDestroySession ev session rt =
     (let usage = Call_logUsage (double_sub (pvr_getTimeSeconds ev) (m_sessionStartTime rt))
                    (m_sessionTotalFrameCount rt);
          ok = (\<lambda>s. \<not> XR_FAILED (xrDestroySwapchain ev s))
      in case find (\<lambda>s. XR_FAILED (xrDestroySwapchain ev s)) (m_swapchains rt) of
           Some swapchain \<Rightarrow>
             (Throw (XrCommandFailed (xrDestroySwapchain ev swapchain)),
              rt\<lparr>m_swapchains := dropWhile ok (m_swapchains rt),
                 trace := trace rt @ [usage]
                   @ map Call_xrDestroySwapchain (takeWhile ok (m_swapchains rt))
                   @ [Call_xrDestroySwapchain swapchain]\<rparr>)
         | None \<Rightarrow>
             if XR_FAILED (xrDestroySpace ev (m_originSpace rt)) then
               (Throw (XrCommandFailed (xrDestroySpace ev (m_originSpace rt))),
                rt\<lparr>m_swapchains := [],
                   trace := trace rt @ [usage]
                     @ map Call_xrDestroySwapchain (m_swapchains rt)
                     @ [Call_xrDestroySpace (m_originSpace rt)]\<rparr>)
             else if XR_FAILED (xrDestroySpace ev (m_viewSpace rt)) then
               (Throw (XrCommandFailed (xrDestroySpace ev (m_viewSpace rt))),
                rt\<lparr>m_swapchains := [],
                   m_originSpace := XR_NULL_HANDLE,
                   trace := trace rt @ [usage]
                     @ map Call_xrDestroySwapchain (m_swapchains rt)
                     @ [Call_xrDestroySpace (m_originSpace rt), Store_originSpace XR_NULL_HANDLE,
                        Call_xrDestroySpace (m_viewSpace rt)]\<rparr>)
             else
               (Return XR_SUCCESS,
                rt\<lparr>m_sessionCreated := False,
                   m_sessionState := XR_SESSION_STATE_UNKNOWN,
                   m_sessionStateDirty := False,
                   m_sessionExiting := False,
                   m_originSpace := XR_NULL_HANDLE,
                   m_viewSpace := XR_NULL_HANDLE,
                   m_swapchains := [],
                   trace := trace rt @ [usage]
                     @ map Call_xrDestroySwapchain (m_swapchains rt)
                     @ [Call_xrDestroySpace (m_originSpace rt), Store_originSpace XR_NULL_HANDLE,
                        Call_xrDestroySpace (m_viewSpace rt), Store_viewSpace XR_NULL_HANDLE,
                        Call_cleanupOpenGL, Call_cleanupVulkan, Call_cleanupD3D12,
                        Call_cleanupD3D11,
                        Store_sessionState XR_SESSION_STATE_UNKNOWN,
                        Store_sessionStateDirty False,
                        Store_sessionCreated False, Store_sessionExiting False]\<rparr>))"
    using xrDestroySession_result [of rt ev] by simp
  show "let usage = Call_logUsage (double_sub (pvr_getTimeSeconds ev) (m_sessionStartTime rt))
                     (m_sessionTotalFrameCount rt);
           ok = (\<lambda>s. \<not> XR_FAILED (xrDestroySwapchain ev s))
       in (\<forall>swapchain.
             find (\<lambda>s. XR_FAILED (xrDestroySwapchain ev s)) (m_swapchains rt) = Some swapchain
             \<longrightarrow>
             xrDestroySession ev session rt =
               (Throw (XrCommandFailed (xrDestroySwapchain ev swapchain)),
                rt\<lparr>m_swapchains := dropWhile ok (m_swapchains rt),
                   trace := trace rt @ [usage]
                     @ map Call_xrDestroySwapchain (takeWhile ok (m_swapchains rt))
                     @ [Call_xrDestroySwapchain swapchain]\<rparr>))
          \<and> ((\<forall>swapchain \<in> set (m_swapchains rt). ok swapchain)
              \<and> XR_FAILED (xrDestroySpace ev (m_originSpace rt)) \<longrightarrow>
             xrDestroySession ev session rt =
               (Throw (XrCommandFailed (xrDestroySpace ev (m_originSpace rt))),
                rt\<lparr>m_swapchains := [],
                   trace := trace rt @ [usage]
                     @ map Call_xrDestroySwapchain (m_swapchains rt)
                     @ [Call_xrDestroySpace (m_originSpace rt)]\<rparr>))
          \<and> ((\<forall>swapchain \<in> set (m_swapchains rt). ok swapchain)
              \<and> \<not> XR_FAILED (xrDestroySpace ev (m_originSpace rt))
              \<and> XR_FAILED (xrDestroySpace ev (m_viewSpace rt)) \<longrightarrow>
             xrDestroySession ev session rt =
               (Throw (XrCommandFailed (xrDestroySpace ev (m_viewSpace rt))),
                rt\<lparr>m_swapchains := [],
                   m_originSpace := XR_NULL_HANDLE,
                   trace := trace rt @ [usage]
                     @ map Call_xrDestroySwapchain (m_swapchains rt)
                     @ [Call_xrDestroySpace (m_originSpace rt), Store_originSpace XR_NULL_HANDLE,
                        Call_xrDestroySpace (m_viewSpace rt)]\<rparr>))"
  proof (cases "find (\<lambda>s. XR_FAILED (xrDestroySwapchain ev s)) (m_swapchains rt)")
    case None
    then show ?thesis unfolding result by (simp add: Let_def)
  next
    case (Some swapchain)
    then have "\<not> (\<forall>s \<in> set (m_swapchains rt). \<not> XR_FAILED (xrDestroySwapchain ev s))"
      by (auto simp: find_Some_iff)
    with Some show ?thesis unfolding result by (auto simp: Let_def)
  qed
next
  fix exc
  assume thrown: "fst (xrDestroySession ev session rt) = Throw exc"
  show "m_sessionCreated (snd (xrDestroySession ev session rt))"
    and "m_sessionState (snd (xrDestroySession ev session rt)) = m_sessionState rt"
    and "cleanup_calls (trace (snd (xrDestroySession ev session rt))) = cleanup_calls (trace rt)"
    by (rule xrDestroySession_thrown [OF thrown])+
qed

lemma xrDestroySession_two_swapchains:
  "xrDestroySession env_ok 1 (runtime_idle\<lparr>m_swapchains := [5, 6]\<rparr>) =
     (Return XR_SUCCESS,
      runtime_start\<lparr>trace :=
        [Call_logUsage 10 0, Call_xrDestroySwapchain 5, Call_xrDestroySwapchain 6,
         Call_xrDestroySpace 100, Store_originSpace 0,
         Call_xrDestroySpace 101, Store_viewSpace 0,
         Call_cleanupOpenGL, Call_cleanupVulkan, Call_cleanupD3D12, Call_cleanupD3D11,
         Store_sessionState XR_SESSION_STATE_UNKNOWN, Store_sessionStateDirty False,
         Store_sessionCreated False, Store_sessionExiting False]\<rparr>)"
  by (simp add: xrDestroySession_result env_ok_def runtime_idle_def runtime_start_def
        XR_FAILED_def XR_NULL_HANDLE_def double_sub_def float_eval)

lemma xrDestroySession_swapchain_failure:
  "xrDestroySession (env_ok\<lparr>xrDestroySwapchain := (\<lambda>h. XR_ERROR_RUNTIME_FAILURE)\<rparr>) 1
       (runtime_idle\<lparr>m_swapchains := [5, 6]\<rparr>) =
     (Throw (XrCommandFailed XR_ERROR_RUNTIME_FAILURE),
      runtime_idle\<lparr>m_swapchains := [5, 6],
                    trace := [Call_logUsage 10 0, Call_xrDestroySwapchain 5]\<rparr>)"
  by (simp add: xrDestroySession_def destroySwapchains.simps emit_def env_ok_def
        runtime_idle_def runtime_start_def XR_FAILED_def XR_ERROR_RUNTIME_FAILURE_def
        double_sub_def float_eval)

text \<open>
  The claim as stated fails twice. In a destruction that succeeds the last store is the one
  to the exiting flag, the created flag is cleared before it. And on the handle of a
  created session owning two swapchains, when the destruction of the first one fails, the
  call leaves by that failure: both swapchains are still owned, no space is destroyed, no
  cleanup is called, the state is still idle and the session is still created.
\<close>

theorem xrDestroySession_teardown_counterexample:
  "fst (xrDestroySession env_ok 1 (runtime_idle\<lparr>m_swapchains := [5, 6]\<rparr>)) = Return XR_SUCCESS
   \<and> last (trace (snd (xrDestroySession env_ok 1 (runtime_idle\<lparr>m_swapchains := [5, 6]\<rparr>))))
       = Store_sessionExiting False
   \<and> last (butlast
       (trace (snd (xrDestroySession env_ok 1 (runtime_idle\<lparr>m_swapchains := [5, 6]\<rparr>)))))
       = Store_sessionCreated False
   \<and> fst (xrDestroySession (env_ok\<lparr>xrDestroySwapchain := (\<lambda>h. XR_ERROR_RUNTIME_FAILURE)\<rparr>) 1
            (runtime_idle\<lparr>m_swapchains := [5, 6]\<rparr>))
       = Throw (XrCommandFailed XR_ERROR_RUNTIME_FAILURE)
   \<and> snd (xrDestroySession (env_ok\<lparr>xrDestroySwapchain := (\<lambda>h. XR_ERROR_RUNTIME_FAILURE)\<rparr>) 1
            (runtime_idle\<lparr>m_swapchains := [5, 6]\<rparr>))
       = runtime_idle\<lparr>m_swapchains := [5, 6],
                       trace := [Call_logUsage 10 0, Call_xrDestroySwapchain 5]\<rparr>
   \<and> m_sessionCreated runtime_idle
   \<and> m_sessionState runtime_idle = XR_SESSION_STATE_IDLE"
proof -
  have "m_sessionCreated runtime_idle \<and> m_sessionState runtime_idle = XR_SESSION_STATE_IDLE"
    by (simp add: runtime_idle_def runtime_start_def)
  then show ?thesis
    by (simp add: xrDestroySession_two_swapchains xrDestroySession_swapchain_failure)
qed

theorem xrDestroySession_teardown_witness:
  "xrDestroySession env_ok 2 runtime_idle = (Return XR_ERROR_HANDLE_INVALID, runtime_idle)
   \<and> xrDestroySession env_ok 1 runtime_start = (Return XR_ERROR_HANDLE_INVALID, runtime_start)
   \<and> fst (xrDestroySession env_ok 1 (runtime_idle\<lparr>m_swapchains := [5, 6]\<rparr>)) = Return XR_SUCCESS
   \<and> trace (snd (xrDestroySession env_ok 1 (runtime_idle\<lparr>m_swapchains := [5, 6]\<rparr>)))
       = [Call_logUsage 10 0, Call_xrDestroySwapchain 5, Call_xrDestroySwapchain 6,
          Call_xrDestroySpace 100, Store_originSpace 0,
          Call_xrDestroySpace 101, Store_viewSpace 0,
          Call_cleanupOpenGL, Call_cleanupVulkan, Call_cleanupD3D12, Call_cleanupD3D11,
          Store_sessionState XR_SESSION_STATE_UNKNOWN, Store_sessionStateDirty False,
          Store_sessionCreated False, Store_sessionExiting False]
   \<and> fst (xrDestroySession env_ok 1
         (snd (xrDestroySession env_ok 1 (runtime_idle\<lparr>m_swapchains := [5, 6]\<rparr>))))
       = Return XR_ERROR_HANDLE_INVALID
   \<and> xrDestroySession
         (env_ok\<lparr>xrDestroySwapchain := (\<lambda>h. if h = 6 then XR_ERROR_RUNTIME_FAILURE else 0)\<rparr>) 1
         (runtime_idle\<lparr>m_swapchains := [5, 6]\<rparr>)
       = (Throw (XrCommandFailed XR_ERROR_RUNTIME_FAILURE),
          runtime_idle\<lparr>m_swapchains := [6],
                        trace := [Call_logUsage 10 0, Call_xrDestroySwapchain 5,
                                  Call_xrDestroySwapchain 6]\<rparr>)
   \<and> m_sessionCreated
         (snd (xrDestroySession
           (env_ok\<lparr>xrDestroySwapchain := (\<lambda>h. if h = 6 then XR_ERROR_RUNTIME_FAILURE else 0)\<rparr>) 1
           (runtime_idle\<lparr>m_swapchains := [5, 6]\<rparr>)))
   \<and> xrDestroySession
         (env_ok\<lparr>xrDestroySpace := (\<lambda>h. if h = 100 then XR_ERROR_RUNTIME_FAILURE else 0)\<rparr>) 1
         (runtime_idle\<lparr>m_swapchains := [5, 6]\<rparr>)
       = (Throw (XrCommandFailed XR_ERROR_RUNTIME_FAILURE),
          runtime_idle\<lparr>m_swapchains := [],
                        trace := [Call_logUsage 10 0, Call_xrDestroySwapchain 5,
                                  Call_xrDestroySwapchain 6, Call_xrDestroySpace 100]\<rparr>)
   \<and> xrDestroySession
         (env_ok\<lparr>xrDestroySpace := (\<lambda>h. if h = 101 then XR_ERROR_HANDLE_INVALID else 0)\<rparr>) 1
         (runtime_idle\<lparr>m_swapchains := [5, 6]\<rparr>)
       = (Throw (XrCommandFailed XR_ERROR_HANDLE_INVALID),
          runtime_idle\<lparr>m_swapchains := [], m_originSpace := 0,
                        trace := [Call_logUsage 10 0, Call_xrDestroySwapchain 5,
                                  Call_xrDestroySwapchain 6, Call_xrDestroySpace 100,
                                  Store_originSpace 0, Call_xrDestroySpace 101]\<rparr>)"
proof -
  let ?rt = "runtime_idle\<lparr>m_swapchains := [5, 6]\<rparr>"
  let ?bad = "env_ok\<lparr>xrDestroySwapchain := (\<lambda>h. if h = 6 then XR_ERROR_RUNTIME_FAILURE else 0)\<rparr>"
  have h1: "\<not> m_sessionCreated runtime_idle \<or> (2 :: XrSession) \<noteq> 1"
    by simp
  have h2: "\<not> m_sessionCreated runtime_start \<or> (1 :: XrSession) \<noteq> 1"
    by (simp add: runtime_start_def)
  have ok: "m_sessionCreated ?rt \<and> (1 :: XrSession) = 1 \<and> distinct (m_swapchains ?rt)
        \<and> (\<forall>swapchain \<in> set (m_swapchains ?rt).
              \<not> XR_FAILED (xrDestroySwapchain env_ok swapchain))
        \<and> \<not> XR_FAILED (xrDestroySpace env_ok (m_originSpace ?rt))
        \<and> \<not> XR_FAILED (xrDestroySpace env_ok (m_viewSpace ?rt))"
    by (simp add: runtime_idle_def runtime_start_def env_ok_def XR_FAILED_def)
  have valid: "m_sessionCreated ?rt \<and> (1 :: XrSession) = 1 \<and> distinct (m_swapchains ?rt)"
    by (simp add: runtime_idle_def runtime_start_def)
  have first: "find (\<lambda>s. XR_FAILED (xrDestroySwapchain ?bad s)) (m_swapchains ?rt) = Some 6"
    by (simp add: env_ok_def XR_FAILED_def XR_ERROR_RUNTIME_FAILURE_def)
  have given: "m_swapchains ?rt = [5, 6]" "m_originSpace ?rt = 100" "m_viewSpace ?rt = 101"
    "trace ?rt = []" "m_sessionStartTime ?rt = 0" "m_sessionTotalFrameCount ?rt = 0"
    "pvr_getTimeSeconds env_ok = 10" "pvr_getTimeSeconds ?bad = 10"
    "double_sub 10 0 = 10" "xrDestroySwapchain ?bad 6 = XR_ERROR_RUNTIME_FAILURE"
    "\<not> XR_FAILED (xrDestroySwapchain ?bad 5)"
    by (simp_all add: runtime_idle_def runtime_start_def env_ok_def double_sub_def float_eval
          XR_FAILED_def)
  note 1 = xrDestroySession_teardown [THEN conjunct1, rule_format, OF h1, of env_ok]
  note 2 = xrDestroySession_teardown [THEN conjunct1, rule_format, OF h2, of env_ok]
  from xrDestroySession_teardown [THEN conjunct2, THEN conjunct1, rule_format, OF ok,
         of env_ok]
  have 3: "fst (xrDestroySession env_ok 1 ?rt) = Return XR_SUCCESS
     \<and> trace (snd (xrDestroySession env_ok 1 ?rt))
       = [Call_logUsage 10 0, Call_xrDestroySwapchain 5, Call_xrDestroySwapchain 6,
          Call_xrDestroySpace 100, Store_originSpace 0,
          Call_xrDestroySpace 101, Store_viewSpace 0,
          Call_cleanupOpenGL, Call_cleanupVulkan, Call_cleanupD3D12, Call_cleanupD3D11,
          Store_sessionState XR_SESSION_STATE_UNKNOWN, Store_sessionStateDirty False,
          Store_sessionCreated False, Store_sessionExiting False]
     \<and> fst (xrDestroySession env_ok 1 (snd (xrDestroySession env_ok 1 ?rt)))
       = Return XR_ERROR_HANDLE_INVALID"
    by (simp add: Let_def given XR_NULL_HANDLE_def)
  from xrDestroySession_teardown [THEN conjunct2, THEN conjunct2, THEN conjunct1, rule_format,
         OF valid, of ?bad]
  have "\<forall>swapchain.
          find (\<lambda>s. XR_FAILED (xrDestroySwapchain ?bad s)) (m_swapchains ?rt) = Some swapchain
          \<longrightarrow>
          xrDestroySession ?bad 1 ?rt =
            (Throw (XrCommandFailed (xrDestroySwapchain ?bad swapchain)),
             ?rt\<lparr>m_swapchains :=
                    dropWhile (\<lambda>s. \<not> XR_FAILED (xrDestroySwapchain ?bad s)) (m_swapchains ?rt),
                  trace := trace ?rt
                    @ [Call_logUsage
                         (double_sub (pvr_getTimeSeconds ?bad) (m_sessionStartTime ?rt))
                         (m_sessionTotalFrameCount ?rt)]
                    @ map Call_xrDestroySwapchain
                        (takeWhile (\<lambda>s. \<not> XR_FAILED (xrDestroySwapchain ?bad s))
                           (m_swapchains ?rt))
                    @ [Call_xrDestroySwapchain swapchain]\<rparr>)"
    by (simp only: Let_def) blast
  from this [rule_format, OF first]
  have 4: "xrDestroySession ?bad 1 ?rt
       = (Throw (XrCommandFailed XR_ERROR_RUNTIME_FAILURE),
          runtime_idle\<lparr>m_swapchains := [6],
                        trace := [Call_logUsage 10 0, Call_xrDestroySwapchain 5,
                                  Call_xrDestroySwapchain 6]\<rparr>)"
    by (simp add: given XR_FAILED_def XR_ERROR_RUNTIME_FAILURE_def)
  then have thrown: "fst (xrDestroySession ?bad 1 ?rt)
                       = Throw (XrCommandFailed XR_ERROR_RUNTIME_FAILURE)"
    by simp
  note 5 = xrDestroySession_teardown [THEN conjunct2, THEN conjunct2, THEN conjunct2,
             rule_format, OF thrown, THEN conjunct1]
  let ?origin = "env_ok\<lparr>xrDestroySpace := (\<lambda>h. if h = 100 then XR_ERROR_RUNTIME_FAILURE else 0)\<rparr>"
  let ?view = "env_ok\<lparr>xrDestroySpace := (\<lambda>h. if h = 101 then XR_ERROR_HANDLE_INVALID else 0)\<rparr>"
  have origin_fails:
    "(\<forall>swapchain \<in> set (m_swapchains ?rt). \<not> XR_FAILED (xrDestroySwapchain ?origin swapchain))
     \<and> XR_FAILED (xrDestroySpace ?origin (m_originSpace ?rt))"
    by (simp add: given env_ok_def XR_FAILED_def XR_ERROR_RUNTIME_FAILURE_def)
  have view_fails:
    "(\<forall>swapchain \<in> set (m_swapchains ?rt). \<not> XR_FAILED (xrDestroySwapchain ?view swapchain))
     \<and> \<not> XR_FAILED (xrDestroySpace ?view (m_originSpace ?rt))
     \<and> XR_FAILED (xrDestroySpace ?view (m_viewSpace ?rt))"
    by (simp add: given env_ok_def XR_FAILED_def XR_ERROR_HANDLE_INVALID_def)
  have clock: "pvr_getTimeSeconds ?origin = 10" "pvr_getTimeSeconds ?view = 10"
    by (simp_all add: env_ok_def)
  note spaces = xrDestroySession_teardown [THEN conjunct2, THEN conjunct2, THEN conjunct1,
                  rule_format, OF valid, unfolded Let_def, THEN conjunct2]
  from spaces [of ?origin, THEN conjunct1, rule_format, OF origin_fails]
  have 6: "xrDestroySession ?origin 1 ?rt
       = (Throw (XrCommandFailed XR_ERROR_RUNTIME_FAILURE),
          runtime_idle\<lparr>m_swapchains := [],
                        trace := [Call_logUsage 10 0, Call_xrDestroySwapchain 5,
                                  Call_xrDestroySwapchain 6, Call_xrDestroySpace 100]\<rparr>)"
    by (simp add: given clock)
  from spaces [of ?view, THEN conjunct2, rule_format, OF view_fails]
  have 7: "xrDestroySession ?view 1 ?rt
       = (Throw (XrCommandFailed XR_ERROR_HANDLE_INVALID),
          runtime_idle\<lparr>m_swapchains := [], m_originSpace := 0,
                        trace := [Call_logUsage 10 0, Call_xrDestroySwapchain 5,
                                  Call_xrDestroySwapchain 6, Call_xrDestroySpace 100,
                                  Store_originSpace 0, Call_xrDestroySpace 101]\<rparr>)"
    by (simp add: given clock XR_NULL_HANDLE_def)
  from 1 2 3 4 5 6 7 show ?thesis by simp
qed

subsection \<open>Failure of reference space creation\<close>

text \<open>
  C7. When the preconditions hold, a backend was initialized with success and the
  recenter command (if the setting asks for it) succeeded, a failure of the creation of the
  origin space, or of the view space after it, leaves \<open>xrCreateSession\<close> by the
  exception of that failure; the last store before it clears the created flag, so the
  session is not created afterwards and every entry point taking the session handle
  refuses it; no backend cleanup was called, and \<open>*session\<close> is not written.
\<close>

theorem xrCreateSession_space_failure:
  assumes "createInfo_type createInfo = XR_TYPE_SESSION_CREATE_INFO"
    and "m_instanceCreated rt" and "instance = 1"
    and "m_systemCreated rt" and "systemId createInfo = 1"
    and "m_graphicsRequirementQueried rt"
    and "\<not> m_sessionCreated rt"
    and backend: "find (eligible rt) (createInfo_next createInfo) = Some entry"
      "\<not> XR_FAILED (initializer_result ev entry)"
    and recenter: "value_or (getSetting ev ''recenter_on_startup'') 1 = 0
      \<or> pvr_recenterTrackingOrigin ev = pvr_success"
    and spaces: "failure =
      (if XR_FAILED (fst (xrCreateReferenceSpace ev XR_REFERENCE_SPACE_TYPE_LOCAL (m_originSpace rt)))
       then fst (xrCreateReferenceSpace ev XR_REFERENCE_SPACE_TYPE_LOCAL (m_originSpace rt))
       else fst (xrCreateReferenceSpace ev XR_REFERENCE_SPACE_TYPE_VIEW (m_viewSpace rt)))"
      "XR_FAILED failure"
  shows
    "(let rt' = snd (snd (xrCreateSession ev instance createInfo session rt)) in
        fst (xrCreateSession ev instance createInfo session rt) = Throw (XrCommandFailed failure)
        \<and> fst (snd (xrCreateSession ev instance createInfo session rt)) = session
        \<and> last (trace rt') = Store_sessionCreated False
        \<and> \<not> m_sessionCreated rt'
        \<and> initializer_calls (trace rt') = initializer_calls (trace rt) @ [initializer_call entry]
        \<and> cleanup_calls (trace rt') = cleanup_calls (trace rt)
        \<and> xrBeginSession ev' session' beginInfo rt'
            = (Return (if beginInfo_type beginInfo \<noteq> XR_TYPE_SESSION_BEGIN_INFO
                       then XR_ERROR_VALIDATION_FAILURE else XR_ERROR_HANDLE_INVALID), rt')
        \<and> xrEndSession ev' session' rt' = (Return XR_ERROR_HANDLE_INVALID, rt')
        \<and> xrRequestExitSession ev' session' rt' = (Return XR_ERROR_HANDLE_INVALID, rt')
        \<and> xrDestroySession ev' session' rt' = (Return XR_ERROR_HANDLE_INVALID, rt'))"
proof -
  let ?rt1 = "emit (initializer_call entry) rt"
  obtain rt2 where config: "readConfiguration ev ?rt1 = (None, rt2)"
    using recenter fst_readConfiguration [of ev ?rt1]
    by (cases "readConfiguration ev ?rt1") auto
  have handles: "m_originSpace (resetSessionState ev rt2) = m_originSpace rt"
    "m_viewSpace (resetSessionState ev rt2) = m_viewSpace rt"
    using readConfiguration_keeps(1,2) [of ev ?rt1, unfolded config]
    by (simp_all add: resetSessionState_fields emit_def)
  obtain rt3 where create:
    "createReferenceSpaces ev (resetSessionState ev rt2) = (Some (XrCommandFailed failure), rt3)"
    using spaces fst_createReferenceSpaces [of ev "resetSessionState ev rt2", unfolded handles]
    by (cases "createReferenceSpaces ev (resetSessionState ev rt2)") (auto split: if_splits)
  let ?rt' = "set_sessionCreated False rt3"
  have result: "xrCreateSession ev instance createInfo session rt
                  = (Throw (XrCommandFailed failure), session, ?rt')"
    using backend config create by (simp add: xrCreateSession_passed [OF assms(1-7)])
  have calls: "initializer_calls (trace ?rt') = initializer_calls (trace rt) @ [initializer_call entry]"
    "cleanup_calls (trace ?rt') = cleanup_calls (trace rt)"
    using xrCreateSession_initializer_calls [OF assms(1-7) backend(1), of ev session]
    by (simp_all add: result)
  have flag: "last (trace ?rt') = Store_sessionCreated False" "\<not> m_sessionCreated ?rt'"
    by (simp_all add: set_sessionCreated_def emit_def)
  from flag(2) have refused:
    "xrBeginSession ev' session' beginInfo ?rt'
       = (Return (if beginInfo_type beginInfo \<noteq> XR_TYPE_SESSION_BEGIN_INFO
                  then XR_ERROR_VALIDATION_FAILURE else XR_ERROR_HANDLE_INVALID), ?rt')"
    "xrEndSession ev' session' ?rt' = (Return XR_ERROR_HANDLE_INVALID, ?rt')"
    "xrRequestExitSession ev' session' ?rt' = (Return XR_ERROR_HANDLE_INVALID, ?rt')"
    "xrDestroySession ev' session' ?rt' = (Return XR_ERROR_HANDLE_INVALID, ?rt')"
    by (simp_all add: xrBeginSession_def xrEndSession_def xrRequestExitSession_def
          xrDestroySession_def)
  from calls flag refused show ?thesis
    by (simp add: result Let_def)
qed

theorem xrCreateSession_space_failure_witness:
  "fst (xrCreateSession
          (env_ok\<lparr>xrCreateReferenceSpace :=
             (\<lambda>t h. if t = XR_REFERENCE_SPACE_TYPE_LOCAL then (0, 100)
                    else (XR_ERROR_RUNTIME_FAILURE, h))\<rparr>)
          1 createInfo_d3d11_vulkan 0 runtime_start)
     = Throw (XrCommandFailed XR_ERROR_RUNTIME_FAILURE)
   \<and> \<not> m_sessionCreated (snd (snd (xrCreateSession
          (env_ok\<lparr>xrCreateReferenceSpace :=
             (\<lambda>t h. if t = XR_REFERENCE_SPACE_TYPE_LOCAL then (0, 100)
                    else (XR_ERROR_RUNTIME_FAILURE, h))\<rparr>)
          1 createInfo_d3d11_vulkan 0 runtime_start)))
   \<and> last (trace (snd (snd (xrCreateSession
          (env_ok\<lparr>xrCreateReferenceSpace :=
             (\<lambda>t h. if t = XR_REFERENCE_SPACE_TYPE_LOCAL then (0, 100)
                    else (XR_ERROR_RUNTIME_FAILURE, h))\<rparr>)
          1 createInfo_d3d11_vulkan 0 runtime_start))))
       = Store_sessionCreated False
   \<and> initializer_calls (trace (snd (snd (xrCreateSession
          (env_ok\<lparr>xrCreateReferenceSpace :=
             (\<lambda>t h. if t = XR_REFERENCE_SPACE_TYPE_LOCAL then (0, 100)
                    else (XR_ERROR_RUNTIME_FAILURE, h))\<rparr>)
          1 createInfo_d3d11_vulkan 0 runtime_start))))
       = [Call_initializeD3D11 [7]]
   \<and> cleanup_calls (trace (snd (snd (xrCreateSession
          (env_ok\<lparr>xrCreateReferenceSpace :=
             (\<lambda>t h. if t = XR_REFERENCE_SPACE_TYPE_LOCAL then (0, 100)
                    else (XR_ERROR_RUNTIME_FAILURE, h))\<rparr>)
          1 createInfo_d3d11_vulkan 0 runtime_start))))
       = []"
proof -
  let ?ev = "env_ok\<lparr>xrCreateReferenceSpace :=
               (\<lambda>t h. if t = XR_REFERENCE_SPACE_TYPE_LOCAL then (0, 100)
                      else (XR_ERROR_RUNTIME_FAILURE, h))\<rparr>"
  let ?d3d11 = "\<lparr>entry_type = XR_TYPE_GRAPHICS_BINDING_D3D11_KHR, entry_body = [7]\<rparr>"
  have pre:
    "createInfo_type createInfo_d3d11_vulkan = XR_TYPE_SESSION_CREATE_INFO"
    "m_instanceCreated runtime_start" "(1 :: XrInstance) = 1"
    "m_systemCreated runtime_start" "systemId createInfo_d3d11_vulkan = 1"
    "m_graphicsRequirementQueried runtime_start"
    "\<not> m_sessionCreated runtime_start"
    by (simp_all add: createInfo_d3d11_vulkan_def runtime_start_def)
  have found: "find (eligible runtime_start) (createInfo_next createInfo_d3d11_vulkan)
                 = Some ?d3d11"
    by (simp add: createInfo_d3d11_vulkan_def runtime_start_def eligible_def)
  have initialized: "\<not> XR_FAILED (initializer_result ?ev ?d3d11)"
    by (simp add: initializer_result_def env_ok_def XR_FAILED_def)
  have recenter: "value_or (getSetting ?ev ''recenter_on_startup'') 1 = 0
      \<or> pvr_recenterTrackingOrigin ?ev = pvr_success"
    by (simp add: env_ok_def pvr_success_def)
  have failure: "XR_ERROR_RUNTIME_FAILURE =
      (if XR_FAILED (fst (xrCreateReferenceSpace ?ev XR_REFERENCE_SPACE_TYPE_LOCAL
                            (m_originSpace runtime_start)))
       then fst (xrCreateReferenceSpace ?ev XR_REFERENCE_SPACE_TYPE_LOCAL
                   (m_originSpace runtime_start))
       else fst (xrCreateReferenceSpace ?ev XR_REFERENCE_SPACE_TYPE_VIEW
                   (m_viewSpace runtime_start)))"
    "XR_FAILED XR_ERROR_RUNTIME_FAILURE"
    by (simp_all add: XR_FAILED_def XR_ERROR_RUNTIME_FAILURE_def)
  have given: "initializer_calls (trace runtime_start) = []"
    "cleanup_calls (trace runtime_start) = []"
    "initializer_call ?d3d11 = Call_initializeD3D11 [7]"
    by (simp_all add: runtime_start_def initializer_calls_def cleanup_calls_def
          initializer_call_def)
  from xrCreateSession_space_failure [OF pre found initialized recenter failure, of 0]
  show ?thesis
    by (simp add: Let_def given)
qed

subsection \<open>Dirty flag and event time\<close>

lemma xrCreateSession_success:
  assumes "fst (xrCreateSession ev instance createInfo session rt) = Return XR_SUCCESS"
  shows "fst (snd (xrCreateSession ev instance createInfo session rt)) = 1"
    and "m_sessionCreated (snd (snd (xrCreateSession ev instance createInfo session rt)))"
    and "m_sessionState (snd (snd (xrCreateSession ev instance createInfo session rt)))
           = XR_SESSION_STATE_IDLE"
    and "m_sessionStateDirty (snd (snd (xrCreateSession ev instance createInfo session rt)))"
    and "m_sessionStateEventTime (snd (snd (xrCreateSession ev instance createInfo session rt)))
           = pvr_getTimeSeconds ev"
    and "m_sessionStartTime (snd (snd (xrCreateSession ev instance createInfo session rt)))
           = pvr_getTimeSeconds ev"
proof -
  from assms have pre:
    "createInfo_type createInfo = XR_TYPE_SESSION_CREATE_INFO"
    "m_instanceCreated rt" "instance = 1"
    "m_systemCreated rt" "systemId createInfo = 1"
    "m_graphicsRequirementQueried rt"
    "\<not> m_sessionCreated rt"
    by (auto simp: xrCreateSession_def result_defs split: if_splits)
  note passed = xrCreateSession_passed [OF pre, of ev session]
  from assms obtain entry where found:
    "find (eligible rt) (createInfo_next createInfo) = Some entry"
    by (cases "find (eligible rt) (createInfo_next createInfo)")
       (auto simp: passed result_defs)
  from assms found have ok: "\<not> XR_FAILED (initializer_result ev entry)"
    by (auto simp: passed XR_FAILED_def XR_SUCCESS_def split: if_splits)
  from assms found ok obtain rt2 where
    config: "readConfiguration ev (emit (initializer_call entry) rt) = (None, rt2)"
    by (cases "readConfiguration ev (emit (initializer_call entry) rt)")
       (auto simp: passed split: option.splits)
  from assms found ok config obtain rt3 where
    create: "createReferenceSpaces ev (resetSessionState ev rt2) = (None, rt3)"
    by (cases "createReferenceSpaces ev (resetSessionState ev rt2)")
       (auto simp: passed split: option.splits)
  have result: "xrCreateSession ev instance createInfo session rt = (Return XR_SUCCESS, 1, rt3)"
    using found ok config create by (simp add: passed)
  note keeps = createReferenceSpaces_keeps [of ev "resetSessionState ev rt2", unfolded create]
  show "fst (snd (xrCreateSession ev instance createInfo session rt)) = 1"
    and "m_sessionCreated (snd (snd (xrCreateSession ev instance createInfo session rt)))"
    and "m_sessionState (snd (snd (xrCreateSession ev instance createInfo session rt)))
           = XR_SESSION_STATE_IDLE"
    and "m_sessionStateDirty (snd (snd (xrCreateSession ev instance createInfo session rt)))"
    and "m_sessionStateEventTime (snd (snd (xrCreateSession ev instance createInfo session rt)))
           = pvr_getTimeSeconds ev"
    and "m_sessionStartTime (snd (snd (xrCreateSession ev instance createInfo session rt)))
           = pvr_getTimeSeconds ev"
    using keeps by (simp_all add: result resetSessionState_fields)
qed

text \<open>A creation that succeeds, evaluated: the D3D11 entry of the chain is bound.\<close>

lemma xrCreateSession_example:
  "xrCreateSession env_ok 1 createInfo_d3d11_vulkan 0 runtime_start =
     (Return XR_SUCCESS, 1,
      runtime_start\<lparr>m_sessionCreated := True,
                     m_sessionState := XR_SESSION_STATE_IDLE,
                     m_sessionStateDirty := True,
                     m_sessionStateEventTime := 10,
                     m_sessionStartTime := 10,
                     m_originSpace := 100,
                     m_viewSpace := 101,
                     m_useParallelProjection := True,
                     trace :=
                       [Call_initializeD3D11 [7],
                        Call_pvr_recenterTrackingOrigin,
                        Call_logScenario ''D3D11'' False 1 True,
                        Store_sessionCreated True,
                        Store_sessionState XR_SESSION_STATE_IDLE,
                        Store_sessionStateDirty True,
                        Store_sessionStateEventTime 10,
                        Call_rebindControllerActions 0,
                        Call_rebindControllerActions 1,
                        Call_xrCreateReferenceSpace XR_REFERENCE_SPACE_TYPE_LOCAL,
                        Call_xrCreateReferenceSpace XR_REFERENCE_SPACE_TYPE_VIEW]\<rparr>)"
  by (simp add: xrCreateSession_def createInfo_d3d11_vulkan_def runtime_start_def env_ok_def
        readConfiguration_def refreshSettings_def resetSessionState_def
        createReferenceSpaces_def setter_defs value_or_def XR_FAILED_def
        pvr_success_def float_of_int_def float_mul_def float_div_def double_mul_def
        uint64_of_double_def float_eval)

text \<open>
  C8, as amended. Each of \<open>xrCreateSession\<close>, \<open>xrBeginSession\<close>, \<open>xrEndSession\<close> and
  \<open>xrRequestExitSession\<close>, when it returns success, has set the dirty flag and stored
  the clock reading of the call as the state event time. A successful begin after a
  successful creation therefore holds the reading taken by the begin call: it is no
  earlier than the creation time when the clock did not go back, and later exactly when
  the clock advanced between the two readings.
\<close>

theorem transition_sets_dirty_and_event_time:
  "(fst (xrCreateSession ev instance createInfo session rt) = Return XR_SUCCESS \<longrightarrow>
      m_sessionStateDirty (snd (snd (xrCreateSession ev instance createInfo session rt)))
      \<and> m_sessionStateEventTime (snd (snd (xrCreateSession ev instance createInfo session rt)))
          = pvr_getTimeSeconds ev)
   \<and> (fst (xrBeginSession ev session beginInfo rt) = Return XR_SUCCESS \<longrightarrow>
      m_sessionStateDirty (snd (xrBeginSession ev session beginInfo rt))
      \<and> m_sessionStateEventTime (snd (xrBeginSession ev session beginInfo rt))
          = pvr_getTimeSeconds ev)
   \<and> (fst (xrEndSession ev session rt) = Return XR_SUCCESS \<longrightarrow>
      m_sessionStateDirty (snd (xrEndSession ev session rt))
      \<and> m_sessionStateEventTime (snd (xrEndSession ev session rt)) = pvr_getTimeSeconds ev)
   \<and> (fst (xrRequestExitSession ev session rt) = Return XR_SUCCESS \<longrightarrow>
      m_sessionStateDirty (snd (xrRequestExitSession ev session rt))
      \<and> m_sessionStateEventTime (snd (xrRequestExitSession ev session rt))
          = pvr_getTimeSeconds ev)
   \<and> (fst (xrCreateSession ev instance createInfo session rt) = Return XR_SUCCESS
       \<and> fst (xrBeginSession ev' session' beginInfo
                 (snd (snd (xrCreateSession ev instance createInfo session rt))))
           = Return XR_SUCCESS \<longrightarrow>
      (let created = snd (snd (xrCreateSession ev instance createInfo session rt));
           begun = snd (xrBeginSession ev' session' beginInfo created)
       in m_sessionStateEventTime created = pvr_getTimeSeconds ev
          \<and> m_sessionStartTime begun = pvr_getTimeSeconds ev
          \<and> m_sessionStateEventTime begun = pvr_getTimeSeconds ev'
          \<and> (pvr_getTimeSeconds ev \<le> pvr_getTimeSeconds ev' \<longrightarrow>
               m_sessionStateEventTime created \<le> m_sessionStateEventTime begun)
          \<and> (m_sessionStateEventTime created < m_sessionStateEventTime begun
               \<longleftrightarrow> pvr_getTimeSeconds ev < pvr_getTimeSeconds ev')))"
proof (intro conjI impI)
  assume "fst (xrCreateSession ev instance createInfo session rt) = Return XR_SUCCESS"
  then show "m_sessionStateDirty (snd (snd (xrCreateSession ev instance createInfo session rt)))"
    and "m_sessionStateEventTime (snd (snd (xrCreateSession ev instance createInfo session rt)))
          = pvr_getTimeSeconds ev"
    by (rule xrCreateSession_success(4), rule xrCreateSession_success(5))
next
  assume "fst (xrBeginSession ev session beginInfo rt) = Return XR_SUCCESS"
  then show "m_sessionStateDirty (snd (xrBeginSession ev session beginInfo rt))"
    and "m_sessionStateEventTime (snd (xrBeginSession ev session beginInfo rt))
          = pvr_getTimeSeconds ev"
    by (auto simp: xrBeginSession_def setter_defs result_defs split: if_splits)
next
  assume "fst (xrEndSession ev session rt) = Return XR_SUCCESS"
  then show "m_sessionStateDirty (snd (xrEndSession ev session rt))"
    and "m_sessionStateEventTime (snd (xrEndSession ev session rt)) = pvr_getTimeSeconds ev"
    by (auto simp: xrEndSession_def setter_defs result_defs split: if_splits)
next
  assume "fst (xrRequestExitSession ev session rt) = Return XR_SUCCESS"
  then show "m_sessionStateDirty (snd (xrRequestExitSession ev session rt))"
    and "m_sessionStateEventTime (snd (xrRequestExitSession ev session rt))
          = pvr_getTimeSeconds ev"
    by (auto simp: xrRequestExitSession_def setter_defs result_defs split: if_splits)
next
  let ?created = "snd (snd (xrCreateSession ev instance createInfo session rt))"
  assume both: "fst (xrCreateSession ev instance createInfo session rt) = Return XR_SUCCESS
       \<and> fst (xrBeginSession ev' session' beginInfo ?created) = Return XR_SUCCESS"
  then have created: "m_sessionStateEventTime ?created = pvr_getTimeSeconds ev"
    "m_sessionStartTime ?created = pvr_getTimeSeconds ev"
    by (simp_all add: xrCreateSession_success)
  from both have begun:
    "m_sessionStateEventTime (snd (xrBeginSession ev' session' beginInfo ?created))
       = pvr_getTimeSeconds ev'"
    "m_sessionStartTime (snd (xrBeginSession ev' session' beginInfo ?created))
       = m_sessionStartTime ?created"
    by (auto simp: xrBeginSession_def setter_defs result_defs split: if_splits)
  from created begun
  show "let created = snd (snd (xrCreateSession ev instance createInfo session rt));
            begun = snd (xrBeginSession ev' session' beginInfo created)
        in m_sessionStateEventTime created = pvr_getTimeSeconds ev
          \<and> m_sessionStartTime begun = pvr_getTimeSeconds ev
          \<and> m_sessionStateEventTime begun = pvr_getTimeSeconds ev'
          \<and> (pvr_getTimeSeconds ev \<le> pvr_getTimeSeconds ev' \<longrightarrow>
               m_sessionStateEventTime created \<le> m_sessionStateEventTime begun)
          \<and> (m_sessionStateEventTime created < m_sessionStateEventTime begun
               \<longleftrightarrow> pvr_getTimeSeconds ev < pvr_getTimeSeconds ev')"
    by (simp add: Let_def)
qed

theorem transition_sets_dirty_and_event_time_witness:
  "m_sessionStateDirty
     (snd (snd (xrCreateSession env_ok 1 createInfo_d3d11_vulkan 0 runtime_start)))
   \<and> m_sessionStateEventTime
       (snd (snd (xrCreateSession env_ok 1 createInfo_d3d11_vulkan 0 runtime_start))) = 10
   \<and> m_sessionStateDirty
       (snd (xrBeginSession (env_ok\<lparr>pvr_getTimeSeconds := 12\<rparr>) 1 beginInfo_stereo
          (snd (snd (xrCreateSession env_ok 1 createInfo_d3d11_vulkan 0 runtime_start)))))
   \<and> m_sessionStateEventTime
       (snd (xrBeginSession (env_ok\<lparr>pvr_getTimeSeconds := 12\<rparr>) 1 beginInfo_stereo
          (snd (snd (xrCreateSession env_ok 1 createInfo_d3d11_vulkan 0 runtime_start))))) = 12
   \<and> m_sessionStateEventTime
       (snd (snd (xrCreateSession env_ok 1 createInfo_d3d11_vulkan 0 runtime_start)))
     < m_sessionStateEventTime
       (snd (xrBeginSession (env_ok\<lparr>pvr_getTimeSeconds := 12\<rparr>) 1 beginInfo_stereo
          (snd (snd (xrCreateSession env_ok 1 createInfo_d3d11_vulkan 0 runtime_start)))))
   \<and> m_sessionStateDirty
       (snd (xrRequestExitSession env_ok 1
          (runtime_idle\<lparr>m_sessionState := XR_SESSION_STATE_SYNCHRONIZED\<rparr>)))
   \<and> m_sessionStateEventTime
       (snd (xrRequestExitSession env_ok 1
          (runtime_idle\<lparr>m_sessionState := XR_SESSION_STATE_SYNCHRONIZED\<rparr>))) = 10
   \<and> m_sessionStateDirty
       (snd (xrEndSession env_ok 1 (runtime_idle\<lparr>m_sessionState := XR_SESSION_STATE_STOPPING\<rparr>)))
   \<and> m_sessionStateEventTime
       (snd (xrEndSession env_ok 1 (runtime_idle\<lparr>m_sessionState := XR_SESSION_STATE_STOPPING\<rparr>)))
       = 10"
proof -
  let ?later = "env_ok\<lparr>pvr_getTimeSeconds := 12\<rparr>"
  let ?created = "snd (snd (xrCreateSession env_ok 1 createInfo_d3d11_vulkan 0 runtime_start))"
  have clock: "pvr_getTimeSeconds env_ok = 10" "pvr_getTimeSeconds ?later = 12"
    by (simp_all add: env_ok_def)
  have create: "fst (xrCreateSession env_ok 1 createInfo_d3d11_vulkan 0 runtime_start)
                  = Return XR_SUCCESS"
    by (simp add: xrCreateSession_example)
  have begun: "fst (xrBeginSession ?later 1 beginInfo_stereo ?created) = Return XR_SUCCESS"
    unfolding xrCreateSession_example
    by (simp add: xrBeginSession_def beginInfo_stereo_def runtime_start_def)
  have requested: "fst (xrRequestExitSession env_ok 1
                (runtime_idle\<lparr>m_sessionState := XR_SESSION_STATE_SYNCHRONIZED\<rparr>))
                = Return XR_SUCCESS"
    by (simp add: xrRequestExitSession_def runtime_idle_def runtime_start_def)
  have ended: "fst (xrEndSession env_ok 1
                  (runtime_idle\<lparr>m_sessionState := XR_SESSION_STATE_STOPPING\<rparr>))
                  = Return XR_SUCCESS"
    by (simp add: xrEndSession_def runtime_idle_def runtime_start_def)
  note main = transition_sets_dirty_and_event_time
  note 1 = main [THEN conjunct1, rule_format, OF create]
  note 2 = main [THEN conjunct2, THEN conjunct1, rule_format, OF begun]
  note 3 = main [THEN conjunct2, THEN conjunct2, THEN conjunct1, rule_format, OF ended]
  note 4 = main [THEN conjunct2, THEN conjunct2, THEN conjunct2, THEN conjunct1, rule_format,
                OF requested]
  from 1 2 3 4 show ?thesis
    by (simp add: clock)
qed

text \<open>
  The claim as stated fails when the device clock gives the same reading to both calls: the
  begin succeeds and its event time equals the time recorded at creation.
\<close>

theorem transition_sets_dirty_and_event_time_counterexample:
  "fst (xrCreateSession env_ok 1 createInfo_d3d11_vulkan 0 runtime_start) = Return XR_SUCCESS
   \<and> fst (xrBeginSession env_ok 1 beginInfo_stereo
            (snd (snd (xrCreateSession env_ok 1 createInfo_d3d11_vulkan 0 runtime_start))))
       = Return XR_SUCCESS
   \<and> m_sessionStartTime
       (snd (snd (xrCreateSession env_ok 1 createInfo_d3d11_vulkan 0 runtime_start))) = 10
   \<and> m_sessionStateEventTime
       (snd (snd (xrCreateSession env_ok 1 createInfo_d3d11_vulkan 0 runtime_start))) = 10
   \<and> m_sessionStateEventTime
       (snd (xrBeginSession env_ok 1 beginInfo_stereo
          (snd (snd (xrCreateSession env_ok 1 createInfo_d3d11_vulkan 0 runtime_start))))) = 10
   \<and> \<not> m_sessionStateEventTime
         (snd (snd (xrCreateSession env_ok 1 createInfo_d3d11_vulkan 0 runtime_start)))
       < m_sessionStateEventTime
         (snd (xrBeginSession env_ok 1 beginInfo_stereo
            (snd (snd (xrCreateSession env_ok 1 createInfo_d3d11_vulkan 0 runtime_start)))))"
  unfolding xrCreateSession_example
  by (simp add: xrBeginSession_def beginInfo_stereo_def runtime_start_def setter_defs
        env_ok_def)

subsection \<open>The session handle\<close>

text \<open>
  C10, as amended. A creation that succeeds writes the handle 1 to \<open>*session\<close>. With no
  session created, or with a handle other than 1, \<open>xrEndSession\<close>, \<open>xrRequestExitSession\<close>
  and \<open>xrDestroySession\<close> fail with handle invalid, and so does \<open>xrBeginSession\<close>
  when its structure tag is the expected one; with another tag \<open>xrBeginSession\<close> fails
  with validation failure, whatever the handle. In each of these cases the runtime is left
  as it was.
\<close>

theorem session_handle_is_one:
  "(fst (xrCreateSession ev instance createInfo session0 rt) = Return XR_SUCCESS \<longrightarrow>
      fst (snd (xrCreateSession ev instance createInfo session0 rt)) = 1)
   \<and> (\<not> m_sessionCreated rt \<or> session \<noteq> 1 \<longrightarrow>
        xrEndSession ev session rt = (Return XR_ERROR_HANDLE_INVALID, rt)
        \<and> xrRequestExitSession ev session rt = (Return XR_ERROR_HANDLE_INVALID, rt)
        \<and> xrDestroySession ev session rt = (Return XR_ERROR_HANDLE_INVALID, rt)
        \<and> xrBeginSession ev session beginInfo rt
            = (Return (if beginInfo_type beginInfo = XR_TYPE_SESSION_BEGIN_INFO
                       then XR_ERROR_HANDLE_INVALID else XR_ERROR_VALIDATION_FAILURE), rt))
   \<and> XR_FAILED XR_ERROR_HANDLE_INVALID \<and> XR_FAILED XR_ERROR_VALIDATION_FAILURE"
proof (intro conjI impI)
  assume "fst (xrCreateSession ev instance createInfo session0 rt) = Return XR_SUCCESS"
  then show "fst (snd (xrCreateSession ev instance createInfo session0 rt)) = 1"
    by (rule xrCreateSession_success(1))
next
  assume invalid: "\<not> m_sessionCreated rt \<or> session \<noteq> 1"
  then show "xrEndSession ev session rt = (Return XR_ERROR_HANDLE_INVALID, rt)"
    by (auto simp: xrEndSession_def)
  from invalid show "xrRequestExitSession ev session rt = (Return XR_ERROR_HANDLE_INVALID, rt)"
    by (auto simp: xrRequestExitSession_def)
  from invalid show "xrDestroySession ev session rt = (Return XR_ERROR_HANDLE_INVALID, rt)"
    by (auto simp: xrDestroySession_def)
  from invalid show "xrBeginSession ev session beginInfo rt
            = (Return (if beginInfo_type beginInfo = XR_TYPE_SESSION_BEGIN_INFO
                       then XR_ERROR_HANDLE_INVALID else XR_ERROR_VALIDATION_FAILURE), rt)"
    by (auto simp: xrBeginSession_def)
next
  show "XR_FAILED XR_ERROR_HANDLE_INVALID" "XR_FAILED XR_ERROR_VALIDATION_FAILURE"
    by (simp_all add: XR_FAILED_def result_defs)
qed

theorem session_handle_is_one_witness:
  "fst (snd (xrCreateSession env_ok 1 createInfo_d3d11_vulkan 0 runtime_start)) = 1
   \<and> xrEndSession env_ok 2 runtime_idle = (Return XR_ERROR_HANDLE_INVALID, runtime_idle)
   \<and> xrRequestExitSession env_ok 2 runtime_idle = (Return XR_ERROR_HANDLE_INVALID, runtime_idle)
   \<and> xrDestroySession env_ok 2 runtime_idle = (Return XR_ERROR_HANDLE_INVALID, runtime_idle)
   \<and> xrBeginSession env_ok 2 beginInfo_stereo runtime_idle
       = (Return XR_ERROR_HANDLE_INVALID, runtime_idle)
   \<and> xrEndSession env_ok 1 runtime_start = (Return XR_ERROR_HANDLE_INVALID, runtime_start)
   \<and> xrBeginSession env_ok 1 beginInfo_stereo runtime_start
       = (Return XR_ERROR_HANDLE_INVALID, runtime_start)"
proof -
  have create: "fst (xrCreateSession env_ok 1 createInfo_d3d11_vulkan 0 runtime_start)
                  = Return XR_SUCCESS"
    by (simp add: xrCreateSession_example)
  have foreign: "\<not> m_sessionCreated runtime_idle \<or> (2 :: XrSession) \<noteq> 1"
    by simp
  have none: "\<not> m_sessionCreated runtime_start \<or> (1 :: XrSession) \<noteq> 1"
    by (simp add: runtime_start_def)
  have tag: "beginInfo_type beginInfo_stereo = XR_TYPE_SESSION_BEGIN_INFO"
    by (simp add: beginInfo_stereo_def)
  note main = session_handle_is_one
  note 1 = main [THEN conjunct1, rule_format, OF create]
  note 2 = main [THEN conjunct2, THEN conjunct1, rule_format, OF foreign,
                of env_ok beginInfo_stereo]
  note 3 = main [THEN conjunct2, THEN conjunct1, rule_format, OF none,
                of env_ok beginInfo_stereo]
  from 1 2 3 show ?thesis
    by (simp add: tag)
qed

text \<open>
  The claim as stated fails for \<open>xrBeginSession\<close>: with a foreign handle and a
  structure tag that is not the expected one, the error is validation failure, not handle
  invalid.
\<close>

theorem session_handle_is_one_counterexample:
  "xrBeginSession env_ok 2 (beginInfo_stereo\<lparr>beginInfo_type := XR_TYPE_SESSION_CREATE_INFO\<rparr>)
       runtime_idle
     = (Return XR_ERROR_VALIDATION_FAILURE, runtime_idle)
   \<and> XR_ERROR_VALIDATION_FAILURE \<noteq> XR_ERROR_HANDLE_INVALID"
  by (simp add: xrBeginSession_def beginInfo_stereo_def type_defs result_defs)

subsection \<open>Settings\<close>

text \<open>
  The integer settings of \<open>refreshSettings\<close>: only the selectors 1 and 2 force an
  interaction profile.
\<close>

lemma refreshSettings_forced_profile:
  "m_forcedInteractionProfile (refreshSettings ev rt) =
     (if getSetting ev ''force_interaction_profile'' = Some 1 then Some OculusTouchController
      else if getSetting ev ''force_interaction_profile'' = Some 2
      then Some MicrosoftMotionController
      else None)"
  by (cases "getSetting ev ''force_interaction_profile''")
     (simp_all add: refreshSettings_def value_or_def Let_def)


text \<open>
  Two evaluations of the rounding: the difference of the doubles 100 and 0.1, as line 211
  computes it for the usage record, and the double nearest to 11.11.
\<close>

lemma double_sub_100_tenth:
  "double_sub 100 (3602879701896397 / 36028797018963968)
     = 3514918771674317 / 35184372088832"
  by (simp add: double_sub_def float_eval)







end
